theory Spec2Isabelle
  imports Main "HOL-Library.AList"
begin

section \<open>Strings as the Python code uses them\<close>

text \<open>
  Python strings are modelled as \<open>string\<close> (lists of 8-bit characters); the functions below
  are the ASCII behaviour of \<^verbatim>\<open>str.lower\<close>, \<^verbatim>\<open>str.isdigit\<close>, \<^verbatim>\<open>str.strip\<close>,
  \<^verbatim>\<open>str.split\<close>, \<^verbatim>\<open>in\<close> on strings, \<^verbatim>\<open>int(...)\<close> and \<^verbatim>\<open>str(...)\<close>.
\<close>

datatype py_error = AttributeError | KeyError | IndexError | ValueError | TypeError

definition is_digit :: "char \<Rightarrow> bool" where
  "is_digit c \<longleftrightarrow> c \<in> set ''0123456789''"

definition is_upper :: "char \<Rightarrow> bool" where
  "is_upper c \<longleftrightarrow> c \<in> set ''ABCDEFGHIJKLMNOPQRSTUVWXYZ''"

definition is_lower :: "char \<Rightarrow> bool" where
  "is_lower c \<longleftrightarrow> c \<in> set ''abcdefghijklmnopqrstuvwxyz''"

definition is_space :: "char \<Rightarrow> bool" where
  "is_space c \<longleftrightarrow> c \<in> {CHR 0x20, CHR 0x09, CHR 0x0A, CHR 0x0B, CHR 0x0C, CHR 0x0D,
                          CHR 0x1C, CHR 0x1D, CHR 0x1E, CHR 0x1F}"

text \<open>\<^verbatim>\<open>\w\<close> of the \<^verbatim>\<open>re\<close> module on ASCII: letters, digits and the underscore.\<close>

definition is_word :: "char \<Rightarrow> bool" where
  "is_word c \<longleftrightarrow> is_digit c \<or> is_upper c \<or> is_lower c \<or> c = CHR ''_''"

definition lower_char :: "char \<Rightarrow> char" where
  "lower_char c =
     (case map_of (zip ''ABCDEFGHIJKLMNOPQRSTUVWXYZ'' ''abcdefghijklmnopqrstuvwxyz'') c of
        Some l \<Rightarrow> l
      | None \<Rightarrow> c)"

definition lower :: "string \<Rightarrow> string" where
  "lower s = map lower_char s"

text \<open>\<^verbatim>\<open>s.startswith(p)\<close> and \<^verbatim>\<open>needle in hay\<close>.\<close>

fun startswith :: "string \<Rightarrow> string \<Rightarrow> bool" where
  "startswith s [] = True"
| "startswith [] (p # ps) = False"
| "startswith (c # cs) (p # ps) = (c = p \<and> startswith cs ps)"

fun contains :: "string \<Rightarrow> string \<Rightarrow> bool" where
  "contains needle [] = (needle = [])"
| "contains needle (c # cs) = (startswith (c # cs) needle \<or> contains needle cs)"

text \<open>\<^verbatim>\<open>s.strip()\<close> removes leading and trailing white space.\<close>

definition strip :: "string \<Rightarrow> string" where
  "strip s = rev (dropWhile is_space (rev (dropWhile is_space s)))"

text \<open>\<^verbatim>\<open>s.split(sep)\<close> for a one-character separator: never the empty list.\<close>

fun split_on :: "char \<Rightarrow> string \<Rightarrow> string list" where
  "split_on sep [] = [[]]"
| "split_on sep (c # cs) =
     (if c = sep then [] # split_on sep cs
      else (case split_on sep cs of [] \<Rightarrow> [[c]] | w # ws \<Rightarrow> (c # w) # ws))"

text \<open>\<^verbatim>\<open>int(s)\<close> on a string of decimal digits, and \<^verbatim>\<open>str(n)\<close> on an integer.\<close>

definition digit_val :: "char \<Rightarrow> nat" where
  "digit_val c = of_char c - 48"

definition int_of_digits :: "string \<Rightarrow> nat" where
  "int_of_digits ds = foldl (\<lambda>n c. 10 * n + digit_val c) 0 ds"

definition digit_char :: "nat \<Rightarrow> char" where
  "digit_char d = ''0123456789'' ! d"

fun str_nat :: "nat \<Rightarrow> string" where
  "str_nat n = (if n < 10 then [digit_char n]
                else str_nat (n div 10) @ [digit_char (n mod 10)])"

definition str_int :: "int \<Rightarrow> string" where
  "str_int i = (if i < 0 then CHR ''-'' # str_nat (nat (- i)) else str_nat (nat i))"

section \<open>Interface validity (\<^verbatim>\<open>utils.is_valid_interface\<close>)\<close>

text \<open>
  \<^verbatim>\<open>re.search(r'\D+(\d+)/(\d+)', name)\<close>. Anchored at a position, the greedy \<^verbatim>\<open>\D+\<close>
  has to take the whole run of non-digits (a shorter run is followed by a non-digit, where
  \<^verbatim>\<open>\d+\<close> fails), the first group the whole run of digits (a shorter one is followed by a
  digit, not by the slash), and the second group is the greedy run of digits after the slash.
  The search tries the positions from left to right and returns the two groups of the first
  match.
\<close>

definition match_slash_pair :: "string \<Rightarrow> (string \<times> string) option" where
  "match_slash_pair s =
     (let nondigits = takeWhile (\<lambda>c. \<not> is_digit c) s;
          r1 = dropWhile (\<lambda>c. \<not> is_digit c) s;
          g1 = takeWhile is_digit r1;
          r2 = dropWhile is_digit r1
      in if nondigits = [] \<or> g1 = [] then None
         else (case r2 of
                 [] \<Rightarrow> None
               | c # r3 \<Rightarrow>
                   if c \<noteq> CHR ''/'' then None
                   else (let g2 = takeWhile is_digit r3
                         in if g2 = [] then None else Some (g1, g2))))"

fun search_slash_pair :: "string \<Rightarrow> (string \<times> string) option" where
  "search_slash_pair [] = None"
| "search_slash_pair (c # cs) =
     (case match_slash_pair (c # cs) of
        Some g \<Rightarrow> Some g
      | None \<Rightarrow> search_slash_pair cs)"

definition is_valid_interface :: "string \<Rightarrow> bool" where
  "is_valid_interface interface_name =
     (if contains ''appgigabitethernet'' (lower interface_name) then False
      else (case search_slash_pair interface_name of
              Some (g1, g2) \<Rightarrow>
                if int_of_digits g1 = 0 then True else int_of_digits g2 = 0
            | None \<Rightarrow> True))"

section \<open>The controller's records and the device splitter (\<^verbatim>\<open>SdnManager.split_device_list\<close>)\<close>

text \<open>
  The read API of the controller is a record of functions, one per endpoint the engine calls.
  A stack-detail response is \<open>None\<close> when the controller returns no object and
  \<open>Some members\<close> otherwise (an absent \<^verbatim>\<open>stackSwitchInfo\<close> is the empty list).
\<close>

record stack_switch =
  sw_serialNumber :: string
  stackMemberNumber :: int

record chassis =
  ch_serialNumber :: string
  ch_name :: string

record card =
  serialno :: string
  switchno :: "string option"
  slotno :: "string option"

record dnac_module =
  mod_name :: string
  mod_serialNumber :: string
  mod_partNumber :: "string option"
  mod_description :: "string option"
  dnac_name :: "string option"
  slotnumber :: "string option"
  switchnumber :: "string option"

record controller_api =
  get_stack_details_for_device :: "string \<Rightarrow> stack_switch list option"
  get_chassis_details_for_device :: "string \<Rightarrow> chassis list"
  get_modules :: "string \<Rightarrow> dnac_module list"
  get_linecard_details_v1 :: "string \<Rightarrow> card list"
  get_supervisor_card_detail_v1 :: "string \<Rightarrow> card list"

text \<open>A value of a JSON object read with \<^verbatim>\<open>dict.get\<close>: the key may be absent or null.\<close>

datatype 'a field = Missing | Null | Val 'a

record iface_data =
  data_speed :: "string field"
  data_description :: "string field"
  data_duplex :: "string field"
  interfaceType :: "string option"
  macAddress :: "string option"
  portMode :: "string option"
  ipv4Address :: "string option"
  ipv4Mask :: "string option"

text \<open>A device record as the controller's device list returns it.\<close>

record raw_device =
  r_id :: string
  r_type :: "string option"
  r_hostname :: "string option"
  r_serialNumber :: "string option"
  r_platformId :: "string option"
  r_managementIpAddress :: "string option"
  r_instanceUuid :: string
  r_family :: "string option"
  r_role :: "string option"
  r_errorCode :: "string option"
  r_errorDescription :: "string option"

text \<open>
  One unit of a device: the copy of the device record that \<^verbatim>\<open>split_device_list\<close> makes,
  with the attributes it attaches (\<^verbatim>\<open>rank\<close>, \<^verbatim>\<open>total_serial\<close>, \<^verbatim>\<open>is_multiple\<close>,
  \<^verbatim>\<open>stack_info\<close>) and those \<^verbatim>\<open>sync_sdn_controller_devices\<close> attaches afterwards
  (\<^verbatim>\<open>interfaces\<close>, \<^verbatim>\<open>modules\<close>, \<^verbatim>\<open>managementIpAddressInterface\<close>). The serialised
  unit is the prototype's \<^verbatim>\<open>raw_data\<close>.
\<close>

record unit_device =
  unit_id :: string
  hostname :: string
  serialNumber :: "string option"
  platformId :: "string option"
  managementIpAddress :: "string option"
  instanceUuid :: string
  unit_family :: "string option"
  unit_role :: "string option"
  errorCode :: "string option"
  errorDescription :: "string option"
  rank :: int
  total_serial :: nat
  is_multiple :: bool
  unit_stack_info :: "(string \<times> int) list"
  unit_interfaces :: "(string \<times> iface_data) list"
  unit_modules :: "(string \<times> dnac_module) list"
  managementIpAddressInterface :: "iface_data option"

text \<open>\<^verbatim>\<open>get_chassis_index\<close>: serial to unit rank, from the stack members, else from the chassis.\<close>

fun chassis_entries :: "chassis list \<Rightarrow> (string \<times> int) list \<Rightarrow> py_error + (string \<times> int) list" where
  "chassis_entries [] chassis_index = Inr chassis_index"
| "chassis_entries (switch # rest) chassis_index =
     (let digits = filter is_digit (ch_name switch)
      in if digits = [] then Inl ValueError
         else chassis_entries rest
                (AList.update (strip (ch_serialNumber switch)) (int (int_of_digits digits))
                   chassis_index))"

definition get_chassis_index :: "controller_api \<Rightarrow> string \<Rightarrow> py_error + (string \<times> int) list" where
  "get_chassis_index api prototype_id =
     (case get_stack_details_for_device api prototype_id of
        Some (sw # sws) \<Rightarrow>
          Inr (foldl (\<lambda>chassis_index switch.
                        AList.update (strip (sw_serialNumber switch)) (stackMemberNumber switch)
                          chassis_index)
                 [] (sw # sws))
      | _ \<Rightarrow> chassis_entries (get_chassis_details_for_device api prototype_id) [])"

definition no_serial_indexes :: "controller_api \<Rightarrow> string \<Rightarrow> py_error + int list" where
  "no_serial_indexes api prototype_id =
     (case get_stack_details_for_device api prototype_id of
        None \<Rightarrow> Inl AttributeError
      | Some all_stack \<Rightarrow>
          (let stack_length = length all_stack;
               chassis_length = length (get_chassis_details_for_device api prototype_id);
               max_value = max (max stack_length chassis_length) 1
           in Inr [1 .. int max_value]))"

text \<open>
  The copy made for one serial of a device of \<open>n\<close> serials, and the loop over the serials
  (\<^verbatim>\<open>serial_counter\<close> is \<open>k\<close>).
\<close>

definition serial_unit :: "unit_device \<Rightarrow> nat \<Rightarrow> int \<Rightarrow> string \<Rightarrow> string \<Rightarrow> unit_device" where
  "serial_unit prototype_device n stack_number serial platform =
     prototype_device
       \<lparr> managementIpAddress :=
           (if stack_number > 1 then None else managementIpAddress prototype_device),
         hostname :=
           (if n > 1 then hostname prototype_device @ ''-'' @ str_int stack_number
            else hostname prototype_device),
         rank := stack_number,
         total_serial := n,
         serialNumber := Some (strip serial),
         platformId := Some (strip platform) \<rparr>"

fun split_serials ::
  "unit_device \<Rightarrow> (string \<times> int) list \<Rightarrow> string list \<Rightarrow> nat \<Rightarrow> string list \<Rightarrow> nat
     \<Rightarrow> py_error + unit_device list" where
  "split_serials prototype_device chassis_index platform_ids n [] k = Inr []"
| "split_serials prototype_device chassis_index platform_ids n (serial # rest) k =
     (case map_of chassis_index (strip serial) of
        None \<Rightarrow> Inl KeyError
      | Some stack_number \<Rightarrow>
          if length platform_ids \<le> k then Inl IndexError
          else
            (case split_serials prototype_device chassis_index platform_ids n rest (Suc k) of
               Inl e \<Rightarrow> Inl e
             | Inr units \<Rightarrow>
                 Inr (serial_unit prototype_device n stack_number serial (platform_ids ! k)
                        # units)))"

definition no_serial_unit :: "unit_device \<Rightarrow> nat \<Rightarrow> int \<Rightarrow> unit_device" where
  "no_serial_unit prototype_device n switch_index =
     (let c1 = (if n > 1
                then prototype_device
                       \<lparr> hostname := hostname prototype_device @ ''-'' @ str_int switch_index,
                         is_multiple := True,
                         rank := switch_index,
                         total_serial := n \<rparr>
                else prototype_device)
      in if switch_index > 1 then c1 \<lparr> managementIpAddress := None \<rparr> else c1)"

definition first_label :: "string \<Rightarrow> string" where
  "first_label h = (case split_on CHR ''.'' h of [] \<Rightarrow> [] | x # _ \<Rightarrow> x)"

text \<open>
  The body of the loop of \<^verbatim>\<open>split_device_list\<close> for one device. \<open>prototype_uuid_list\<close> is
  \<open>None\<close> unless the run is restricted to selected prototypes.
\<close>

definition parent_unit :: "raw_device \<Rightarrow> string \<Rightarrow> unit_device" where
  "parent_unit d h =
     \<lparr> unit_id = r_id d,
       hostname = first_label h,
       serialNumber = r_serialNumber d,
       platformId = r_platformId d,
       managementIpAddress = r_managementIpAddress d,
       instanceUuid = r_instanceUuid d,
       unit_family = r_family d,
       unit_role = r_role d,
       errorCode = r_errorCode d,
       errorDescription = r_errorDescription d,
       rank = 1,
       total_serial = 1,
       is_multiple = False,
       unit_stack_info = [],
       unit_interfaces = [],
       unit_modules = [],
       managementIpAddressInterface = None \<rparr>"

definition split_device ::
  "controller_api \<Rightarrow> string list option \<Rightarrow> raw_device \<Rightarrow> py_error + unit_device list" where
  "split_device api prototype_uuid_list d =
     (case r_type d of
        None \<Rightarrow> Inl AttributeError
      | Some t \<Rightarrow>
          if contains ''nexus'' (lower t) then Inr []
          else if (case prototype_uuid_list of
                     None \<Rightarrow> False
                   | Some uuids \<Rightarrow> uuids \<noteq> [] \<and> r_id d \<notin> set uuids) then Inr []
          else
            (case r_hostname d of
               None \<Rightarrow> Inl AttributeError
             | Some h \<Rightarrow>
                 (let prototype_device = parent_unit d h
                  in if r_serialNumber d \<noteq> None \<and> r_serialNumber d \<noteq> Some []
                     then
                       (let serials = split_on CHR '','' (the (r_serialNumber d))
                        in case (if length serials > 1 then get_chassis_index api (r_id d)
                                 else Inr [(strip (hd serials), 1)]) of
                             Inl e \<Rightarrow> Inl e
                           | Inr chassis_index \<Rightarrow>
                               (case r_platformId d of
                                  None \<Rightarrow> Inl AttributeError
                                | Some platform \<Rightarrow>
                                    split_serials
                                      (prototype_device
                                         \<lparr> is_multiple := length serials > 1,
                                           unit_stack_info := chassis_index \<rparr>)
                                      chassis_index (split_on CHR '','' platform)
                                      (length serials) serials 0))
                     else
                       (case no_serial_indexes api (r_id d) of
                          Inl e \<Rightarrow> Inl e
                        | Inr switch_indexes \<Rightarrow>
                            Inr (map (no_serial_unit prototype_device (length switch_indexes))
                                   switch_indexes)))))"

fun split_device_list ::
  "controller_api \<Rightarrow> string list option \<Rightarrow> raw_device list \<Rightarrow> py_error + unit_device list" where
  "split_device_list api prototype_uuid_list [] = Inr []"
| "split_device_list api prototype_uuid_list (d # ds) =
     (case split_device api prototype_uuid_list d of
        Inl e \<Rightarrow> Inl e
      | Inr units \<Rightarrow>
          (case split_device_list api prototype_uuid_list ds of
             Inl e \<Rightarrow> Inl e
           | Inr others \<Rightarrow> Inr (units @ others)))"

section \<open>Module positions (\<^verbatim>\<open>SdnManager.extract_module_positions\<close>)\<close>

text \<open>
  \<^verbatim>\<open>re.search(r"(Switch|Chassis) (\d+)", name, re.IGNORECASE)\<close> and the same with
  \<^verbatim>\<open>(Slot|Module)\<close>: at a position the alternatives are tried in order, each followed by a
  space and a greedy run of digits, which is the group returned.
\<close>

fun match_keyword_number :: "string list \<Rightarrow> string \<Rightarrow> string option" where
  "match_keyword_number [] s = None"
| "match_keyword_number (kw # kws) s =
     (let digits = takeWhile is_digit (drop (length kw + 1) s)
      in if startswith (lower s) (lower kw @ '' '') \<and> digits \<noteq> [] then Some digits
         else match_keyword_number kws s)"

fun search_keyword_number :: "string list \<Rightarrow> string \<Rightarrow> string option" where
  "search_keyword_number kws [] = None"
| "search_keyword_number kws (c # cs) =
     (case match_keyword_number kws (c # cs) of
        Some g \<Rightarrow> Some g
      | None \<Rightarrow> search_keyword_number kws cs)"

definition extract_chassis_number :: "string \<Rightarrow> string option" where
  "extract_chassis_number name = search_keyword_number [''Switch'', ''Chassis''] name"

text \<open>
  \<^verbatim>\<open>re.search(r"\w+\d+/(\d+)/\d+(?:/\d+)?", name)\<close>: the slash is not a word character, so
  \<^verbatim>\<open>\w+\d+\<close> is the whole run of word characters at the position, at least two long and
  ending in a digit; the group is the whole run of digits between the two slashes.
\<close>

definition match_port_slot :: "string \<Rightarrow> string option" where
  "match_port_slot s =
     (let w = takeWhile is_word s; r0 = dropWhile is_word s
      in if length w < 2 \<or> \<not> is_digit (last w) then None
         else (case r0 of
                 [] \<Rightarrow> None
               | c # r1 \<Rightarrow>
                   if c \<noteq> CHR ''/'' then None
                   else (let g = takeWhile is_digit r1; r2 = dropWhile is_digit r1
                         in if g = [] then None
                            else (case r2 of
                                    c2 # c3 # r3 \<Rightarrow>
                                      if c2 = CHR ''/'' \<and> is_digit c3 then Some g else None
                                  | _ \<Rightarrow> None))))"

fun search_port_slot :: "string \<Rightarrow> string option" where
  "search_port_slot [] = None"
| "search_port_slot (c # cs) =
     (case match_port_slot (c # cs) of
        Some g \<Rightarrow> Some g
      | None \<Rightarrow> search_port_slot cs)"

definition extract_slot_or_module_number :: "string \<Rightarrow> string option" where
  "extract_slot_or_module_number name =
     (case search_keyword_number [''Slot'', ''Module''] name of
        Some slot_number \<Rightarrow> Some slot_number
      | None \<Rightarrow> search_port_slot name)"

text \<open>\<^verbatim>\<open>re.search(r'SPA subslot (\d+)/([1-9]\d*)', name)\<close>.\<close>

definition match_spa_subslot :: "string \<Rightarrow> (string \<times> string) option" where
  "match_spa_subslot s =
     (if \<not> startswith s ''SPA subslot '' then None
      else (let r0 = drop (length ''SPA subslot '') s;
                g1 = takeWhile is_digit r0; r1 = dropWhile is_digit r0
            in if g1 = [] then None
               else (case r1 of
                       c # d # r2 \<Rightarrow>
                         if c = CHR ''/'' \<and> is_digit d \<and> d \<noteq> CHR ''0''
                         then Some (g1, d # takeWhile is_digit r2) else None
                     | _ \<Rightarrow> None)))"

fun search_spa_subslot :: "string \<Rightarrow> (string \<times> string) option" where
  "search_spa_subslot [] = None"
| "search_spa_subslot (c # cs) =
     (case match_spa_subslot (c # cs) of
        Some g \<Rightarrow> Some g
      | None \<Rightarrow> search_spa_subslot cs)"

text \<open>Python truth of an optional string, and \<^verbatim>\<open>str.isdigit\<close>.\<close>

definition truthy :: "string option \<Rightarrow> bool" where
  "truthy v = (case v of None \<Rightarrow> False | Some s \<Rightarrow> s \<noteq> [])"

definition isdigit :: "string \<Rightarrow> bool" where
  "isdigit s \<longleftrightarrow> s \<noteq> [] \<and> list_all is_digit s"

text \<open>\<^verbatim>\<open>utils.element_list_to_dict\<close>: a later element replaces an earlier one with the same key.\<close>

definition element_list_to_dict :: "('a \<Rightarrow> string) \<Rightarrow> 'a list \<Rightarrow> (string \<times> 'a) list" where
  "element_list_to_dict selected_key list_to_transform =
     foldl (\<lambda>new_dict list_element. AList.update (selected_key list_element) list_element new_dict)
       [] list_to_transform"

text \<open>
  The body of the loop over the modules; \<open>n_modules\<close> is \<^verbatim>\<open>len(modules)\<close>, the number of
  modules of the device whose serial number is longer than three characters.
\<close>

definition position_module ::
  "(string \<times> card) list \<Rightarrow> unit_device \<Rightarrow> nat \<Rightarrow> dnac_module \<Rightarrow> dnac_module" where
  "position_module allcardsdict prototype_device n_modules dnacmodule =
     (let (switchnumber, slotnumber) =
            (case map_of allcardsdict (mod_serialNumber dnacmodule) of
               Some c \<Rightarrow>
                 (let sw = (if truthy (switchno c) \<and> isdigit (the (switchno c))
                            then switchno c else Some ''1'')
                  in if truthy (slotno c) \<and> isdigit (the (slotno c)) then (sw, slotno c)
                     else if contains ''SPA subslot '' (mod_name dnacmodule)
                     then (case search_spa_subslot (mod_name dnacmodule) of
                             Some (g1, g2) \<Rightarrow> (Some g1, Some g2)
                           | None \<Rightarrow> (sw, None))
                     else (sw, None))
             | None \<Rightarrow>
                 (let sw = (if \<not> is_multiple prototype_device then Some ''1''
                            else extract_chassis_number (mod_name dnacmodule));
                      sl = extract_slot_or_module_number (mod_name dnacmodule)
                  in if truthy sw \<and> \<not> truthy sl
                     then (if total_serial prototype_device = n_modules then (sw, Some ''1'')
                           else (sw, sl))
                     else (sw, sl)));
          m1 = dnacmodule \<lparr> dnac_name := Some (mod_name dnacmodule) \<rparr>;
          m2 = (if truthy slotnumber then m1 \<lparr> slotnumber := slotnumber \<rparr> else m1);
          m3 = (if truthy switchnumber then m2 \<lparr> switchnumber := switchnumber \<rparr> else m2)
      in if truthy switchnumber \<and> truthy slotnumber
         then m3 \<lparr> mod_name := ''Switch '' @ the switchnumber @ '' Module '' @ the slotnumber \<rparr>
         else m3)"

definition extract_module_positions :: "controller_api \<Rightarrow> unit_device \<Rightarrow> dnac_module list" where
  "extract_module_positions api prototype_device =
     (let apimodules = get_modules api (unit_id prototype_device);
          linecards = get_linecard_details_v1 api (unit_id prototype_device);
          supervisorcards = get_supervisor_card_detail_v1 api (unit_id prototype_device);
          allcardsdict = element_list_to_dict serialno (linecards @ supervisorcards);
          modules = filter (\<lambda>apimodule. length (mod_serialNumber apimodule) > 3) apimodules
      in map (position_module allcardsdict prototype_device (length modules)) modules)"

section \<open>The inventory, the prototypes and the script log\<close>

text \<open>
  The persistence layer is a record of tables, each a list of rows. A query
  \<^verbatim>\<open>Model.objects.filter(...).first()\<close> is \<open>find\<close> on the table: the first row of the
  list that satisfies the filter. Foreign keys are row identifiers. Change-log rows
  (\<^verbatim>\<open>object_changelog\<close>) are not part of the modelled state.
\<close>

datatype sync_status = DISCOVERED | IMPORTED | DELETED

datatype py_val = PyNone | PyInt int | PyStr string


record device =
  dev_id :: nat
  dev_name :: string
  dev_serial :: string
  dev_site :: nat
  dev_tenant :: "nat option"
  dev_role :: nat
  dev_device_type :: nat
  dev_primary_ip4 :: "nat option"

record ip_address =
  ip_id :: nat
  address :: string
  ip_tenant :: "nat option"

record device_type_row =
  dt_id :: nat
  dt_model :: string
  dt_part_number :: string
  dt_manufacturer :: string

text \<open>A prefix row; \<open>scope_site\<close> is its scope when the scope is a site.\<close>

record prefix_row =
  pfx_prefix :: string
  scope_site :: "nat option"

record site_row =
  site_id :: nat
  st_facility :: string

record role_row =
  role_id :: nat
  rl_facility :: "string option"

record interface =
  iface_id :: nat
  iface_device :: nat
  iface_name :: string
  iface_type :: string
  speed :: py_val
  description :: py_val
  duplex :: py_val
  iface_module :: "nat option"
  iface_cable :: "nat option"

record module_bay =
  bay_id :: nat
  bay_device :: nat
  bay_name :: string

record interface_template =
  tpl_name :: string
  tpl_device_type :: "nat option"

record inventory =
  devices :: "device list"
  ip_addresses :: "ip_address list"
  device_types :: "device_type_row list"
  prefixes :: "prefix_row list"
  sites :: "site_row list"
  device_roles :: "role_row list"
  interfaces :: "interface list"
  module_bays :: "module_bay list"
  interface_templates :: "interface_template list"

text \<open>
  \<^verbatim>\<open>SdnControllerDevicePrototype\<close>: the primary key and the fields the model class declares.
  \<open>proto_id\<close> is \<open>None\<close> for an instance that was never saved.
\<close>

record prototype =
  proto_id :: "nat option"
  serial :: "string option"
  sdn_hostname :: "string option"
  sdn_management_ip :: "string option"
  primary_ip4 :: "nat option"
  matching_netbox_device :: "nat option"
  related_netbox_device :: "nat option"
  sdn_device_type :: "string option"
  device_type :: "nat option"
  sdn_role :: "string option"
  role :: "nat option"
  raw_data :: unit_device
  stack_info :: "(string \<times> int) list"
  stack_index :: string
  sdn_controller :: nat
  instance_uuid :: string
  family :: "string option"
  site :: "nat option"
  tenant :: "nat option"
  sync_status :: sync_status
  score :: int

record sdn_controller_row =
  ctrl_id :: nat
  sdn_type :: string
  default_tenant :: "nat option"
  regex_template :: "(string \<times> string) list"

text \<open>
  Log messages. The source formats them as text around links to the objects
  (\<^verbatim>\<open>get_link_text\<close> renders the primary key and the display name); here a message is the
  constructor of its sentence with the objects it names.
\<close>

datatype obj_ref =
    PrototypeRef "nat option" "string option"
  | DeviceRef nat string
  | InterfaceRef nat string
  | ModuleBayRef nat string
  | IpRef nat

datatype message =
    VerifySerial string "string option" obj_ref obj_ref
  | MissingRequiredField obj_ref string
  | StackIndexMismatch obj_ref obj_ref
  | PrimaryIpMismatch obj_ref obj_ref obj_ref
  | InterfaceNotInPrototype obj_ref obj_ref obj_ref
  | InterfaceNoModule obj_ref obj_ref
  | ModuleBayNotInDevice obj_ref obj_ref
  | ControllerError obj_ref string "string option"
  | PrototypeIsDiscovered obj_ref
  | PrototypeIsImported obj_ref
  | NewDeviceCreated obj_ref obj_ref
  | DeviceUpdated obj_ref obj_ref
  | AttributeMismatch string obj_ref obj_ref
  | InterfaceAttributeMismatch string obj_ref string obj_ref
  | NoItemSelected
  | UnableToCreatePrototype obj_ref

datatype level = Info | Warning | Failure

record world =
  inv :: inventory
  prototypes :: "prototype list"
  script_log :: "(level \<times> message) list"

text \<open>
  What the engine uses from outside the repository: the regular-expression engine on the
  operator's patterns (group 1 of the first match), NetBox's prefix containment lookup, the
  interface-name normaliser of \<^verbatim>\<open>netutils\<close>, and the \<^verbatim>\<open>save\<close> of a new device, which
  instantiates the components of its device type and may raise (\<open>None\<close>). The last field is
  the effect on the inventory of the writers of module bays, modules, interfaces, addresses
  and of the interface-name reconciler (\<^verbatim>\<open>process_module_bays\<close>, \<^verbatim>\<open>process_interfaces\<close>,
  \<^verbatim>\<open>remap_interfaces\<close>), with a flag telling whether an exception escaped them; they write
  no prototype row.
\<close>

record externals =
  re_search_group1 :: "string \<Rightarrow> string \<Rightarrow> string option"
  net_contains_or_equals :: "string \<Rightarrow> string \<Rightarrow> bool"
  canonical_interface_name :: "string \<Rightarrow> string"
  save_new_device :: "inventory \<Rightarrow> device \<Rightarrow> (inventory \<times> nat) option"
  write_components :: "inventory \<Rightarrow> prototype \<Rightarrow> nat \<Rightarrow> inventory \<times> bool"

definition prototype_ref :: "prototype \<Rightarrow> obj_ref" where
  "prototype_ref p = PrototypeRef (proto_id p) (sdn_hostname p)"

definition device_ref :: "device \<Rightarrow> obj_ref" where
  "device_ref d = DeviceRef (dev_id d) (dev_name d)"

definition get_device :: "inventory \<Rightarrow> nat option \<Rightarrow> device option" where
  "get_device i fk = (case fk of None \<Rightarrow> None | Some k \<Rightarrow> find (\<lambda>d. dev_id d = k) (devices i))"

definition save_device :: "device \<Rightarrow> inventory \<Rightarrow> inventory" where
  "save_device d i = i \<lparr> devices := map (\<lambda>x. if dev_id x = dev_id d then d else x) (devices i) \<rparr>"

definition next_id :: "nat list \<Rightarrow> nat" where
  "next_id ids = Suc (foldr max ids 0)"

section \<open>Mask conversion (\<^verbatim>\<open>utils.mask_to_cidr\<close>)\<close>

text \<open>
  \<^verbatim>\<open>int(s)\<close> on an arbitrary string: surrounding white space, an optional sign, and decimal
  digits that single underscores may separate; anything else raises \<^verbatim>\<open>ValueError\<close>.
\<close>

definition valid_int_body :: "string \<Rightarrow> bool" where
  "valid_int_body b \<longleftrightarrow>
     b \<noteq> [] \<and> is_digit (hd b) \<and> is_digit (last b) \<and>
     list_all (\<lambda>c. is_digit c \<or> c = CHR ''_'') b \<and> \<not> contains ''__'' b"

definition py_int :: "string \<Rightarrow> py_error + int" where
  "py_int s =
     (let t = strip s;
          (negative, body) =
            (case t of
               [] \<Rightarrow> (False, [])
             | c # r \<Rightarrow> if c = CHR ''-'' then (True, r)
                         else if c = CHR ''+'' then (False, r) else (False, t))
      in if valid_int_body body
         then Inr ((if negative then - 1 else 1) * int (int_of_digits (filter is_digit body)))
         else Inl ValueError)"

text \<open>\<^verbatim>\<open>bin(n).count('1')\<close>: the number of set bits of the magnitude of \<open>n\<close>.\<close>

fun bit_count :: "nat \<Rightarrow> nat" where
  "bit_count n = (if n = 0 then 0 else n mod 2 + bit_count (n div 2))"

fun sum_octets :: "string list \<Rightarrow> py_error + nat" where
  "sum_octets [] = Inr 0"
| "sum_octets (octet # octets) =
     (case py_int octet of
        Inl e \<Rightarrow> Inl e
      | Inr v \<Rightarrow> (case sum_octets octets of
                    Inl e \<Rightarrow> Inl e
                  | Inr acc \<Rightarrow> Inr (bit_count (nat \<bar>v\<bar>) + acc)))"

definition mask_to_cidr :: "string \<Rightarrow> py_error + string" where
  "mask_to_cidr ipv4_mask =
     (case sum_octets (split_on CHR ''.'' ipv4_mask) of
        Inl e \<Rightarrow> Inl e
      | Inr cidr \<Rightarrow> Inr (''/'' @ str_nat cidr))"

section \<open>Identity matching, scoring and the prototype upsert (\<^verbatim>\<open>SdnManager.process_prototype\<close>)\<close>

definition last2 :: "string \<Rightarrow> string" where
  "last2 s = drop (length s - 2) s"

text \<open>Lines 396-403: the management address, with the prefix length of its interface.\<close>

definition management_ip :: "unit_device \<Rightarrow> py_error + string option" where
  "management_ip prototype =
     (if truthy (managementIpAddress prototype)
      then (case managementIpAddressInterface prototype of
              None \<Rightarrow> Inr (managementIpAddress prototype)
            | Some ifc \<Rightarrow>
                if truthy (ipv4Mask ifc)
                then (case mask_to_cidr (the (ipv4Mask ifc)) of
                        Inl e \<Rightarrow> Inl e
                      | Inr suffix \<Rightarrow> Inr (Some (the (managementIpAddress prototype) @ suffix)))
                else Inr (managementIpAddress prototype))
      else Inr None)"

text \<open>
  Lines 413-420: the device with the prototype's serial, renamed with the suffix \<^verbatim>\<open>-1\<close> when
  the controller's hostname has it, the device's name has not, and the new name is free.
\<close>

definition find_matching_device ::
  "inventory \<Rightarrow> string \<Rightarrow> string option \<Rightarrow> device option \<times> inventory" where
  "find_matching_device i host ser =
     (case find (\<lambda>d. Some (dev_serial d) = ser) (devices i) of
        None \<Rightarrow> (None, i)
      | Some m \<Rightarrow>
          if last2 host = ''-1'' \<and> last2 (dev_name m) \<noteq> ''-1''
          then (let rename = dev_name m @ ''-1''
                in if find (\<lambda>d. dev_name d = rename) (devices i) = None
                   then (Some (m \<lparr> dev_name := rename \<rparr>),
                         save_device (m \<lparr> dev_name := rename \<rparr>) i)
                   else (Some m, i))
          else (Some m, i))"

text \<open>Lines 423-425.\<close>

definition find_device_type :: "inventory \<Rightarrow> string option \<Rightarrow> device_type_row option" where
  "find_device_type i platform =
     (case find (\<lambda>t. Some (dt_model t) = platform) (device_types i) of
        Some t \<Rightarrow> Some t
      | None \<Rightarrow> find (\<lambda>t. Some (dt_part_number t) = platform) (device_types i))"

text \<open>\<^verbatim>\<open>utils.get_site_from_prefix\<close>: the site of the first containing prefix scoped to a site.\<close>

definition get_site_from_prefix :: "externals \<Rightarrow> inventory \<Rightarrow> string \<Rightarrow> nat option" where
  "get_site_from_prefix ext i ip_text =
     (case find (\<lambda>parent_prefix. net_contains_or_equals ext (pfx_prefix parent_prefix) ip_text
                                 \<and> scope_site parent_prefix \<noteq> None) (prefixes i) of
        None \<Rightarrow> None
      | Some parent_prefix \<Rightarrow> scope_site parent_prefix)"

text \<open>Lines 433-449: the address row is looked up by text prefix and created when absent.\<close>

definition resolve_primary_ip4 ::
  "externals \<Rightarrow> inventory \<Rightarrow> nat option \<Rightarrow> string option
     \<Rightarrow> ip_address option \<times> nat option \<times> inventory" where
  "resolve_primary_ip4 ext i ten sdn_ip =
     (if truthy sdn_ip
      then (let ip = the sdn_ip;
                (primary, i1) =
                  (case find (\<lambda>a. startswith (lower (address a)) (lower ip)) (ip_addresses i) of
                     Some a \<Rightarrow> (a, i)
                   | None \<Rightarrow>
                       (let a = \<lparr> ip_id = next_id (map ip_id (ip_addresses i)),
                                  address = ip, ip_tenant = ten \<rparr>
                        in (a, i \<lparr> ip_addresses := ip_addresses i @ [a] \<rparr>)))
            in (Some primary, get_site_from_prefix ext i1 (address primary), i1))
      else (None, None, i))"

text \<open>Lines 451-458: the related device, by name, then by primary address, then by substring.\<close>

definition find_related_device ::
  "inventory \<Rightarrow> device option \<Rightarrow> string \<Rightarrow> ip_address option \<Rightarrow> device option" where
  "find_related_device i matching host primary =
     (let r1 = (if matching = None \<and> host \<noteq> []
                then find (\<lambda>d. dev_name d = host) (devices i) else None);
          r2 = (if r1 = None \<and> primary \<noteq> None
                then find (\<lambda>d. dev_primary_ip4 d = Some (ip_id (the primary))) (devices i)
                else r1)
      in if r2 = None
         then find (\<lambda>d. contains (lower host) (lower (dev_name d))) (devices i)
         else r2)"

text \<open>Lines 460-465: a related device without serial takes the prototype's and becomes matching.\<close>

definition adopt_serial ::
  "inventory \<Rightarrow> device option \<Rightarrow> device option \<Rightarrow> string option
     \<Rightarrow> device option \<times> device option \<times> inventory" where
  "adopt_serial i matching related ser =
     (case related of
        None \<Rightarrow> (matching, related, i)
      | Some r \<Rightarrow>
          if matching = None \<and> truthy ser \<and> dev_serial r = []
          then (let r' = r \<lparr> dev_serial := the ser \<rparr>
                in (Some r', Some r', save_device r' i))
          else (matching, related, i))"

text \<open>Lines 482-505: site and role from the facility token of the hostname.\<close>

definition extract_facility_from_hostname ::
  "externals \<Rightarrow> sdn_controller_row \<Rightarrow> string \<Rightarrow> string \<Rightarrow> string option" where
  "extract_facility_from_hostname ext ctrl host field =
     (case map_of (regex_template ctrl) field of
        None \<Rightarrow> None
      | Some pattern \<Rightarrow>
          if host \<noteq> [] \<and> pattern \<noteq> []
          then map_option strip (re_search_group1 ext pattern host)
          else None)"

definition infer_site ::
  "externals \<Rightarrow> sdn_controller_row \<Rightarrow> inventory \<Rightarrow> string \<Rightarrow> nat option \<Rightarrow> nat option" where
  "infer_site ext ctrl i host site0 =
     (if site0 = None \<and> regex_template ctrl \<noteq> []
      then (let site_facility = extract_facility_from_hostname ext ctrl host ''site''
            in if truthy site_facility
               then map_option site_id
                      (find (\<lambda>s. lower (st_facility s) = lower (the site_facility)) (sites i))
               else site0)
      else site0)"

definition device_is_cisco :: "inventory \<Rightarrow> device \<Rightarrow> bool" where
  "device_is_cisco i d =
     (case find (\<lambda>t. dt_id t = dev_device_type d) (device_types i) of
        None \<Rightarrow> False
      | Some t \<Rightarrow> lower (dt_manufacturer t) = ''cisco'')"

definition infer_role ::
  "externals \<Rightarrow> sdn_controller_row \<Rightarrow> inventory \<Rightarrow> string \<Rightarrow> nat option \<Rightarrow> nat option" where
  "infer_role ext ctrl i host role0 =
     (if role0 = None \<and> regex_template ctrl \<noteq> []
      then (let role_facility = extract_facility_from_hostname ext ctrl host ''role''
            in if truthy role_facility
               then map_option role_id
                      (find (\<lambda>possible_role.
                               rl_facility possible_role = role_facility
                               \<and> list_ex (\<lambda>possible_device.
                                            dev_role possible_device = role_id possible_role
                                            \<and> device_is_cisco i possible_device) (devices i))
                         (device_roles i))
               else role0)
      else role0)"

text \<open>Lines 475-480 and 508-513: the score.\<close>

definition compute_score ::
  "device option \<Rightarrow> string option \<Rightarrow> string \<Rightarrow> ip_address option \<Rightarrow> device_type_row option
     \<Rightarrow> nat option \<Rightarrow> int" where
  "compute_score matching ser host primary dtype site_resolved =
     (let s0 = 0;
          s1 = (case matching of
                  None \<Rightarrow> s0
                | Some m \<Rightarrow>
                    (let a = s0 + 5;
                         b = (if ser = Some (dev_serial m) then a + 1 else a)
                     in if host = dev_name m then b + 1 else b));
          s2 = (if primary \<noteq> None then s1 + 1 else s1);
          s3 = (if dtype \<noteq> None then s2 + 1 else s2)
      in if site_resolved \<noteq> None then s3 + 1 else s3)"

text \<open>
  Lines 389-536: the candidate that one fetch pass builds for a unit, with the inventory as the
  lookups leave it (a renamed device, a created address, an adopted serial).
\<close>

definition build_candidate ::
  "externals \<Rightarrow> sdn_controller_row \<Rightarrow> unit_device \<Rightarrow> inventory
     \<Rightarrow> py_error + (prototype \<times> inventory)" where
  "build_candidate ext ctrl prototype i0 =
     (case management_ip prototype of
        Inl e \<Rightarrow> Inl e
      | Inr sdn_ip \<Rightarrow>
          (let tenant0 = default_tenant ctrl;
               host = first_label (hostname prototype);
               ser = serialNumber prototype;
               (matching0, i1) = find_matching_device i0 host ser;
               dtype = find_device_type i1 (platformId prototype);
               (primary, site0, i2) = resolve_primary_ip4 ext i1 tenant0 sdn_ip;
               related0 = find_related_device i2 matching0 host primary;
               (matching, related, i3) = adopt_serial i2 matching0 related0 ser;
               site1 = (case matching of None \<Rightarrow> site0 | Some m \<Rightarrow> Some (dev_site m));
               tenant1 = (case matching of
                            None \<Rightarrow> tenant0
                          | Some m \<Rightarrow> (if dev_tenant m \<noteq> None then dev_tenant m else tenant0));
               role1 = (case matching of None \<Rightarrow> None | Some m \<Rightarrow> Some (dev_role m));
               site2 = infer_site ext ctrl i3 host site1;
               role2 = infer_role ext ctrl i3 host role1
           in Inr (\<lparr> proto_id = None,
                     serial = ser,
                     sdn_hostname = Some host,
                     sdn_management_ip = sdn_ip,
                     primary_ip4 = map_option ip_id primary,
                     matching_netbox_device = map_option dev_id matching,
                     related_netbox_device = map_option dev_id related,
                     sdn_device_type = platformId prototype,
                     device_type = map_option dt_id dtype,
                     sdn_role = unit_role prototype,
                     role = role2,
                     raw_data = prototype,
                     stack_info = unit_stack_info prototype,
                     stack_index = strip (str_int (rank prototype)),
                     sdn_controller = ctrl_id ctrl,
                     instance_uuid = instanceUuid prototype,
                     family = unit_family prototype,
                     site = site2,
                     tenant = tenant1,
                     sync_status = DISCOVERED,
                     score = compute_score matching ser host primary dtype site2 \<rparr>,
                   i3)))"

text \<open>
  Lines 538-553: the upsert. Every field of the stored row is overwritten with the
  candidate's, except \<^verbatim>\<open>id\<close>, \<^verbatim>\<open>device_type\<close>, \<^verbatim>\<open>primary_ip4\<close>, \<^verbatim>\<open>site\<close>,
  \<^verbatim>\<open>tenant\<close> and \<^verbatim>\<open>role\<close>.
\<close>

definition overwrite_fields :: "prototype \<Rightarrow> prototype \<Rightarrow> prototype" where
  "overwrite_fields existing_device_prototype candidate =
     candidate
       \<lparr> proto_id := proto_id existing_device_prototype,
         device_type := device_type existing_device_prototype,
         primary_ip4 := primary_ip4 existing_device_prototype,
         site := site existing_device_prototype,
         tenant := tenant existing_device_prototype,
         role := role existing_device_prototype \<rparr>"

definition same_key :: "prototype \<Rightarrow> prototype \<Rightarrow> bool" where
  "same_key candidate p \<longleftrightarrow>
     instance_uuid p = instance_uuid candidate \<and> serial p = serial candidate"

definition pk_of :: "prototype \<Rightarrow> nat" where
  "pk_of p = (case proto_id p of None \<Rightarrow> 0 | Some k \<Rightarrow> k)"

fun replace_first :: "('a \<Rightarrow> bool) \<Rightarrow> 'a \<Rightarrow> 'a list \<Rightarrow> 'a list" where
  "replace_first P y [] = []"
| "replace_first P y (x # xs) = (if P x then y # xs else x # replace_first P y xs)"

definition upsert :: "prototype \<Rightarrow> prototype list \<Rightarrow> prototype \<times> prototype list" where
  "upsert candidate table =
     (case find (same_key candidate) table of
        None \<Rightarrow>
          (let created = candidate \<lparr> proto_id := Some (next_id (map pk_of table)) \<rparr>
           in (created, table @ [created]))
      | Some existing_device_prototype \<Rightarrow>
          (let updated = overwrite_fields existing_device_prototype candidate
           in (updated, replace_first (same_key candidate) updated table)))"

definition process_prototype ::
  "externals \<Rightarrow> sdn_controller_row \<Rightarrow> unit_device \<Rightarrow> world \<Rightarrow> py_error + (prototype \<times> world)" where
  "process_prototype ext ctrl prototype w =
     (case build_candidate ext ctrl prototype (inv w) of
        Inl e \<Rightarrow> Inl e
      | Inr (candidate, i) \<Rightarrow>
          (let (stored, table) = upsert candidate (prototypes w);
               lg = (if truthy (errorCode prototype)
                     then [(Failure, ControllerError (prototype_ref stored)
                                       (the (errorCode prototype)) (errorDescription prototype))]
                     else [])
           in Inr (stored, \<lparr> inv = i, prototypes = table, script_log = script_log w @ lg \<rparr>)))"


section \<open>Deletion detection (\<^verbatim>\<open>SdnManager.check_for_deleted_devices\<close>)\<close>

definition prototype_key :: "prototype \<Rightarrow> string \<times> string option" where
  "prototype_key dp = (instance_uuid dp, serial dp)"

text \<open>The key of the prototype a unit is processed into, and the row the upsert finds for a key.\<close>

definition unit_key :: "unit_device \<Rightarrow> string \<times> string option" where
  "unit_key u = (instanceUuid u, serialNumber u)"

definition find_prototype :: "prototype list \<Rightarrow> string \<times> string option \<Rightarrow> prototype option" where
  "find_prototype table k = find (\<lambda>p. prototype_key p = k) table"

definition mark_deleted :: "sdn_controller_row \<Rightarrow> prototype list \<Rightarrow> world \<Rightarrow> world" where
  "mark_deleted ctrl prototype_list w =
     (let prototype_keys = set (map prototype_key prototype_list)
      in w \<lparr> prototypes :=
               map (\<lambda>existing_device_prototype.
                      if sdn_controller existing_device_prototype = ctrl_id ctrl
                         \<and> prototype_key existing_device_prototype \<notin> prototype_keys
                      then existing_device_prototype \<lparr> sync_status := DELETED \<rparr>
                      else existing_device_prototype)
                 (prototypes w) \<rparr>)"



section \<open>Validation (\<^verbatim>\<open>SdnManager.validate_prototype\<close>)\<close>

text \<open>\<^verbatim>\<open>re.compile(r"^\D*(\d+)/").match(name)\<close> and \<^verbatim>\<open>utils.netbox_stack_position\<close>.\<close>

definition match_stack_prefix :: "string \<Rightarrow> string option" where
  "match_stack_prefix name =
     (let r = dropWhile (\<lambda>c. \<not> is_digit c) name;
          g = takeWhile is_digit r;
          r2 = dropWhile is_digit r
      in (case r2 of
            [] \<Rightarrow> None
          | c # _ \<Rightarrow> if g \<noteq> [] \<and> c = CHR ''/'' then Some g else None))"

fun join :: "string \<Rightarrow> string list \<Rightarrow> string" where
  "join sep [] = []"
| "join sep [x] = x"
| "join sep (x # y # ys) = x @ sep @ join sep (y # ys)"

definition netbox_stack_position :: "inventory \<Rightarrow> device \<Rightarrow> string" where
  "netbox_stack_position i record =
     (let all_device_interfaces = filter (\<lambda>x. iface_device x = dev_id record) (interfaces i);
          index_list =
            foldl (\<lambda>acc x. case match_stack_prefix (iface_name x) of
                             None \<Rightarrow> acc
                           | Some numeric_prefix \<Rightarrow>
                               if numeric_prefix \<in> set acc then acc else acc @ [numeric_prefix])
              [] all_device_interfaces;
          sorted_list = sort_key int_of_digits index_list
      in if length sorted_list > 4 then ''1''
         else join '',''
                (if ''0'' \<in> set sorted_list \<and> length sorted_list > 1
                 then remove1 ''0'' sorted_list else sorted_list))"

text \<open>The properties \<^verbatim>\<open>virtual_chassis\<close> and \<^verbatim>\<open>NetBoxDevice.netbox_stack_index\<close>.\<close>

definition virtual_chassis :: "prototype \<Rightarrow> bool" where
  "virtual_chassis p \<longleftrightarrow> length (stack_info p) > 1"

definition netbox_stack_index :: "world \<Rightarrow> device \<Rightarrow> string" where
  "netbox_stack_index w d =
     (case find (\<lambda>p. matching_netbox_device p = Some (dev_id d)) (prototypes w) of
        Some related_prototype \<Rightarrow>
          if \<not> virtual_chassis related_prototype then ''1''
          else netbox_stack_position (inv w) d
      | None \<Rightarrow> netbox_stack_position (inv w) d)"

text \<open>\<^verbatim>\<open>utils.extract_interface_type\<close> and \<^verbatim>\<open>utils.is_device_type_template\<close>.\<close>

definition extract_interface_type :: "string \<Rightarrow> string" where
  "extract_interface_type name =
     takeWhile (\<lambda>c. is_upper c \<or> is_lower c \<or> c = CHR ''-'') name"

definition is_device_type_template :: "externals \<Rightarrow> inventory \<Rightarrow> interface \<Rightarrow> bool" where
  "is_device_type_template ext i actual_interface =
     (case find (\<lambda>d. dev_id d = iface_device actual_interface) (devices i) of
        None \<Rightarrow> False
      | Some related_device \<Rightarrow>
          (let actual_prefix =
                 extract_interface_type
                   (canonical_interface_name ext (iface_name actual_interface))
           in list_ex (\<lambda>related_interface_template.
                         actual_prefix \<noteq> [] \<and>
                         actual_prefix =
                           extract_interface_type
                             (canonical_interface_name ext (tpl_name related_interface_template)))
                (filter (\<lambda>t. tpl_device_type t = Some (dev_device_type related_device))
                   (interface_templates i))))"

definition required_fields :: "string list" where
  "required_fields = [''sdn_hostname'', ''role'', ''device_type'', ''tenant'', ''site'', ''serial'']"

text \<open>The truth value of \<^verbatim>\<open>getattr(prototype, field, None)\<close> for a required field.\<close>

definition field_is_set :: "prototype \<Rightarrow> string \<Rightarrow> bool" where
  "field_is_set p f =
     (if f = ''sdn_hostname'' then truthy (sdn_hostname p)
      else if f = ''role'' then role p \<noteq> None
      else if f = ''device_type'' then device_type p \<noteq> None
      else if f = ''tenant'' then tenant p \<noteq> None
      else if f = ''site'' then site p \<noteq> None
      else if f = ''serial'' then truthy (serial p)
      else False)"

text \<open>The post-check on the interfaces and on the module bays of the matching device.\<close>

definition interface_failures ::
  "externals \<Rightarrow> world \<Rightarrow> prototype \<Rightarrow> device \<Rightarrow> message list" where
  "interface_failures ext w p m =
     (let all_prototype_interfaces = map fst (unit_interfaces (raw_data p));
          interface_lower_names = map lower all_prototype_interfaces
      in concat
           (map (\<lambda>actual_interface.
                   if lower (iface_type actual_interface) \<in> {''virtual'', ''lag''}
                      \<and> lower (iface_name actual_interface) \<in> set interface_lower_names
                   then []
                   else if contains ''0/0'' (iface_name actual_interface)
                           \<or> contains ''.100'' (iface_name actual_interface)
                   then []
                   else
                     (if iface_name actual_interface \<notin> set all_prototype_interfaces
                      then [InterfaceNotInPrototype (device_ref m)
                              (InterfaceRef (iface_id actual_interface) (iface_name actual_interface))
                              (prototype_ref p)]
                      else [])
                     @ (if \<not> is_valid_interface (iface_name actual_interface)
                           \<and> iface_module actual_interface = None
                           \<and> \<not> is_device_type_template ext (inv w) actual_interface
                        then [InterfaceNoModule (device_ref m)
                                (InterfaceRef (iface_id actual_interface)
                                   (iface_name actual_interface))]
                        else []))
              (filter (\<lambda>x. iface_device x = dev_id m) (interfaces (inv w)))))"

definition module_bay_failures :: "world \<Rightarrow> prototype \<Rightarrow> device \<Rightarrow> message list" where
  "module_bay_failures w p m =
     (let module_bay_lower_names = map (lower \<circ> fst) (unit_modules (raw_data p))
      in concat
           (map (\<lambda>actual_module_bay.
                   if lower (bay_name actual_module_bay) \<notin> set module_bay_lower_names
                   then [ModuleBayNotInDevice
                           (ModuleBayRef (bay_id actual_module_bay) (bay_name actual_module_bay))
                           (device_ref m)]
                   else [])
              (filter (\<lambda>b. bay_device b = dev_id m) (module_bays (inv w)))))"

text \<open>
  The failures that the body of the loop of \<^verbatim>\<open>validate_prototype\<close> reports for one prototype
  of the stack, in the order of the source. Each report also clears \<^verbatim>\<open>prototype_is_ok\<close>.
\<close>

definition failures_of :: "externals \<Rightarrow> world \<Rightarrow> bool \<Rightarrow> prototype \<Rightarrow> message list" where
  "failures_of ext w after_modules p =
     (let matching = get_device (inv w) (matching_netbox_device p);
          related = get_device (inv w) (related_netbox_device p)
      in (case related of
            None \<Rightarrow> []
          | Some r \<Rightarrow>
              if matching = None
              then [VerifySerial (if dev_serial r = [] then ''NONE'' else dev_serial r)
                      (serial p) (device_ref r) (prototype_ref p)]
              else [])
         @ map (MissingRequiredField (prototype_ref p))
             (filter (\<lambda>f. \<not> field_is_set p f) required_fields)
         @ (case matching of
              None \<Rightarrow> []
            | Some m \<Rightarrow>
                if netbox_stack_index w m \<noteq> [] \<and> netbox_stack_index w m \<noteq> stack_index p
                then [StackIndexMismatch (prototype_ref p) (device_ref m)] else [])
         @ (case matching of
              None \<Rightarrow> []
            | Some m \<Rightarrow>
                (case dev_primary_ip4 m of
                   None \<Rightarrow> []
                 | Some a \<Rightarrow>
                     (case primary_ip4 p of
                        None \<Rightarrow> []
                      | Some b \<Rightarrow>
                          if a \<noteq> b
                          then [PrimaryIpMismatch (prototype_ref p) (IpRef b) (IpRef a)]
                          else [])))
         @ (if after_modules
            then (case matching of
                    None \<Rightarrow> []
                  | Some m \<Rightarrow> interface_failures ext w p m @ module_bay_failures w p m)
            else []))"

definition same_stack_prototypes :: "world \<Rightarrow> prototype \<Rightarrow> prototype list" where
  "same_stack_prototypes w sdn_prototype =
     filter (\<lambda>p. instance_uuid p = instance_uuid sdn_prototype) (prototypes w)"

definition stack_failures :: "externals \<Rightarrow> world \<Rightarrow> bool \<Rightarrow> prototype \<Rightarrow> message list" where
  "stack_failures ext w after_modules sdn_prototype =
     concat (map (failures_of ext w after_modules) (same_stack_prototypes w sdn_prototype))"

text \<open>The inner \<^verbatim>\<open>log_failure\<close>: a message already in the list is neither added nor logged.\<close>

fun log_failures ::
  "bool \<Rightarrow> message list \<Rightarrow> message list \<times> (level \<times> message) list
     \<Rightarrow> message list \<times> (level \<times> message) list" where
  "log_failures with_logs [] (message_list, lg) = (message_list, lg)"
| "log_failures with_logs (msg # rest) (message_list, lg) =
     (if msg \<in> set message_list then log_failures with_logs rest (message_list, lg)
      else log_failures with_logs rest
             (message_list @ [msg], if with_logs then lg @ [(Failure, msg)] else lg))"

definition validate_prototype ::
  "externals \<Rightarrow> world \<Rightarrow> prototype \<Rightarrow> message list \<Rightarrow> bool \<Rightarrow> bool
     \<Rightarrow> bool \<times> message list \<times> world" where
  "validate_prototype ext w sdn_prototype message_list with_logs after_modules =
     (let failures = stack_failures ext w after_modules sdn_prototype;
          (message_list', lg) = log_failures with_logs failures (message_list, script_log w)
      in (failures = [], message_list', w \<lparr> script_log := lg \<rparr>))"

section \<open>The importer (\<^verbatim>\<open>SdnManager.import_fetched_elements_in_netbox\<close>)\<close>

text \<open>\<^verbatim>\<open>clean_prototype_interfaces\<close>: orphaned interfaces of the stack's devices are deleted.\<close>

definition clean_prototype_interfaces :: "externals \<Rightarrow> world \<Rightarrow> prototype \<Rightarrow> world" where
  "clean_prototype_interfaces ext w sdn_prototype =
     (let stack_devices =
            concat (map (\<lambda>p. case get_device (inv w) (matching_netbox_device p) of
                               None \<Rightarrow> []
                             | Some d \<Rightarrow> [dev_id d])
                      (same_stack_prototypes w sdn_prototype))
      in w \<lparr> inv := (inv w)
             \<lparr> interfaces :=
                 filter (\<lambda>actual_interface.
                           \<not> (iface_device actual_interface \<in> set stack_devices
                              \<and> iface_cable actual_interface = None
                              \<and> iface_module actual_interface = None
                              \<and> \<not> is_valid_interface (iface_name actual_interface)
                              \<and> \<not> is_device_type_template ext (inv w) actual_interface))
                   (interfaces (inv w)) \<rparr> \<rparr>)"

definition save_prototype :: "prototype \<Rightarrow> world \<Rightarrow> world" where
  "save_prototype p w =
     w \<lparr> prototypes := map (\<lambda>q. if proto_id q = proto_id p then p else q) (prototypes w) \<rparr>"

definition log_entry :: "level \<Rightarrow> message \<Rightarrow> world \<Rightarrow> world" where
  "log_entry l m w = w \<lparr> script_log := script_log w @ [(l, m)] \<rparr>"

text \<open>\<^verbatim>\<open>process_device_attributes\<close>: one warning for each attribute that differs.\<close>

definition process_device_attributes :: "device \<Rightarrow> prototype \<Rightarrow> (level \<times> message) list" where
  "process_device_attributes new_device selected_prototype =
     map (\<lambda>attr. (Warning, AttributeMismatch attr (prototype_ref selected_prototype)
                              (device_ref new_device)))
       (map fst
          (filter snd
             [(''Name'', Some (dev_name new_device) \<noteq> sdn_hostname selected_prototype),
              (''Role'', Some (dev_role new_device) \<noteq> role selected_prototype),
              (''Device_type'', Some (dev_device_type new_device) \<noteq> device_type selected_prototype),
              (''Tenant'', dev_tenant new_device \<noteq> tenant selected_prototype),
              (''Site'', Some (dev_site new_device) \<noteq> site selected_prototype),
              (''Serial'', Some (dev_serial new_device) \<noteq> serial selected_prototype)]))"

text \<open>
  Lines 1126-1162: the device the prototype is imported into, created when there is no
  matching device. \<open>None\<close> is an exception, which the handler of the loop catches.
\<close>

definition import_device :: "externals \<Rightarrow> prototype \<Rightarrow> world \<Rightarrow> (nat \<times> world) option" where
  "import_device ext selected_prototype w =
     (case get_device (inv w) (matching_netbox_device selected_prototype) of
        None \<Rightarrow>
          (case (sdn_hostname selected_prototype, role selected_prototype,
                 device_type selected_prototype, site selected_prototype,
                 serial selected_prototype) of
             (Some n, Some r, Some t, Some s, Some sn) \<Rightarrow>
               (case save_new_device ext (inv w)
                       \<lparr> dev_id = 0, dev_name = n, dev_serial = sn, dev_site = s,
                         dev_tenant = tenant selected_prototype, dev_role = r,
                         dev_device_type = t, dev_primary_ip4 = None \<rparr> of
                  None \<Rightarrow> None
                | Some (i1, new_id) \<Rightarrow>
                    Some (new_id,
                          log_entry Info
                            (NewDeviceCreated (DeviceRef new_id n) (prototype_ref selected_prototype))
                            (w \<lparr> inv := i1 \<lparr> module_bays :=
                                     filter (\<lambda>b. bay_device b \<noteq> new_id) (module_bays i1) \<rparr> \<rparr>)))
           | _ \<Rightarrow> None)
      | Some new_device \<Rightarrow>
          (if dev_serial new_device = []
           then (case serial selected_prototype of
                   None \<Rightarrow> None
                 | Some sn \<Rightarrow>
                     (let d1 = new_device \<lparr> dev_serial := sn \<rparr>
                      in Some (dev_id new_device,
                               log_entry Info
                                 (DeviceUpdated (device_ref d1) (prototype_ref selected_prototype))
                                 (w \<lparr> inv := save_device d1 (inv w),
                                      script_log := script_log w
                                        @ process_device_attributes d1 selected_prototype \<rparr>))))
           else Some (dev_id new_device,
                      log_entry Info
                        (DeviceUpdated (device_ref new_device) (prototype_ref selected_prototype))
                        (w \<lparr> script_log := script_log w
                               @ (if Some (dev_serial new_device) \<noteq> serial selected_prototype
                                  then [(Warning, AttributeMismatch ''Serial''
                                                    (prototype_ref selected_prototype)
                                                    (device_ref new_device))]
                                  else [])
                               @ process_device_attributes new_device selected_prototype \<rparr>))))"

text \<open>
  Lines 1165-1181: the prototype is linked to the device and marked imported, the device takes
  the prototype's device type, and the components are written. The flag is \<open>True\<close> when an
  exception escaped.
\<close>

definition import_writes ::
  "externals \<Rightarrow> prototype \<Rightarrow> nat \<Rightarrow> world \<Rightarrow> world \<times> bool" where
  "import_writes ext selected_prototype new_id w =
     (let sp1 = selected_prototype
                  \<lparr> matching_netbox_device := Some new_id, sync_status := IMPORTED \<rparr>;
          w1 = save_prototype sp1 w;
          i2 = (case (get_device (inv w1) (Some new_id), device_type sp1) of
                  (Some d, Some t) \<Rightarrow> save_device (d \<lparr> dev_device_type := t \<rparr>) (inv w1)
                | _ \<Rightarrow> inv w1);
          (i3, raised) = write_components ext i2 sp1 new_id
      in (w1 \<lparr> inv := i3 \<rparr>, raised))"

text \<open>
  The body of the loop over the selected prototypes, for the one with primary key \<open>pk\<close>:
  the pre-check (lines 1114-1118), the writes (lines 1126-1181, with the flag of an escaped
  exception), and the post-check (lines 1183-1195).
\<close>

definition pre_check ::
  "externals \<Rightarrow> bool \<Rightarrow> prototype \<Rightarrow> world \<times> message list \<Rightarrow> bool \<times> message list \<times> world" where
  "pre_check ext log_all_errors sp st =
     validate_prototype ext (clean_prototype_interfaces ext (fst st) sp) sp (snd st)
       log_all_errors False"

definition write_phase :: "externals \<Rightarrow> prototype \<Rightarrow> world \<Rightarrow> world \<times> bool" where
  "write_phase ext sp w =
     (case import_device ext sp w of
        None \<Rightarrow> (w, True)
      | Some (new_id, w3) \<Rightarrow> import_writes ext sp new_id w3)"

definition import_prototype ::
  "externals \<Rightarrow> bool \<Rightarrow> nat \<Rightarrow> world \<times> message list \<Rightarrow> world \<times> message list" where
  "import_prototype ext log_all_errors pk st =
     (case find (\<lambda>p. proto_id p = Some pk) (prototypes (fst st)) of
        None \<Rightarrow>
          (log_entry Failure (UnableToCreatePrototype (PrototypeRef (Some pk) None)) (fst st),
           snd st)
      | Some sp \<Rightarrow>
          (let (is_valid, ml1, w2) = pre_check ext log_all_errors sp st
           in if \<not> is_valid
              then (log_entry Info (PrototypeIsDiscovered (prototype_ref sp))
                      (save_prototype (sp \<lparr> sync_status := DISCOVERED \<rparr>) w2), ml1)
              else
                (let (w4, raised) = write_phase ext sp w2
                 in if raised
                    then (log_entry Failure (UnableToCreatePrototype (prototype_ref sp)) w4, ml1)
                    else
                      (case find (\<lambda>p. proto_id p = Some pk) (prototypes w4) of
                         None \<Rightarrow>
                           (log_entry Failure (UnableToCreatePrototype (prototype_ref sp)) w4,
                            ml1)
                       | Some sp2 \<Rightarrow>
                           (let (is_valid2, ml2, w5) =
                                  validate_prototype ext w4 sp2 ml1 log_all_errors True
                            in if \<not> is_valid2
                               then (log_entry Info (PrototypeIsDiscovered (prototype_ref sp2))
                                       (save_prototype (sp2 \<lparr> sync_status := DISCOVERED \<rparr>) w5),
                                     ml2)
                               else (log_entry Info (PrototypeIsImported (prototype_ref sp2)) w5,
                                     ml2))))))"

text \<open>
  The whole importer. \<open>prototype_id_list\<close> is the selection of the caller (\<open>None\<close>: every
  prototype, as the fetch job selects); prototypes already deleted are excluded. The result
  is \<^verbatim>\<open>not self.script.failed\<close>.
\<close>

definition primary_keys :: "prototype list \<Rightarrow> nat list" where
  "primary_keys ps = concat (map (\<lambda>p. case proto_id p of None \<Rightarrow> [] | Some k \<Rightarrow> [k]) ps)"

definition selected_prototypes :: "nat list option \<Rightarrow> world \<Rightarrow> prototype list" where
  "selected_prototypes prototype_id_list w =
     filter (\<lambda>p. (case prototype_id_list of
                     None \<Rightarrow> True
                   | Some ids \<Rightarrow> (case proto_id p of None \<Rightarrow> False | Some k \<Rightarrow> k \<in> set ids))
                 \<and> sync_status p \<noteq> DELETED)
       (prototypes w)"

definition import_fetched_elements_in_netbox ::
  "externals \<Rightarrow> bool \<Rightarrow> nat list option \<Rightarrow> world \<Rightarrow> world \<times> bool" where
  "import_fetched_elements_in_netbox ext log_all_errors prototype_id_list w =
     (let prototype_object_list = selected_prototypes prototype_id_list w
      in if prototype_object_list = []
         then (log_entry Failure NoItemSelected w, False)
         else (let (w', message_list) =
                     foldl (\<lambda>st pk. import_prototype ext log_all_errors pk st) (w, [])
                       (primary_keys prototype_object_list)
               in (w', \<not> list_ex (\<lambda>e. fst e = Failure) (script_log w'))))"

section \<open>Interface attributes (\<^verbatim>\<open>process_interfaces\<close>, lines 756-797)\<close>










section \<open>Example data\<close>

text \<open>
  A two-unit stack: serials \<^verbatim>\<open>AAA,BBB\<close>, stack members numbered 1 and 2, hostname
  \<^verbatim>\<open>host\<close>, and an inventory that already holds the first unit.
\<close>

definition ex_api :: controller_api where
  "ex_api =
     \<lparr> get_stack_details_for_device =
         (\<lambda>_. Some [\<lparr> sw_serialNumber = ''AAA'', stackMemberNumber = 1 \<rparr>,
                     \<lparr> sw_serialNumber = ''BBB'', stackMemberNumber = 2 \<rparr>]),
       get_chassis_details_for_device = (\<lambda>_. []),
       get_modules = (\<lambda>_. []),
       get_linecard_details_v1 = (\<lambda>_. []),
       get_supervisor_card_detail_v1 = (\<lambda>_. []) \<rparr>"

definition ex_device :: raw_device where
  "ex_device =
     \<lparr> r_id = ''U1'', r_type = Some ''Cisco Catalyst 9300 Switch'', r_hostname = Some ''host'',
       r_serialNumber = Some ''AAA,BBB'', r_platformId = Some ''C9300-48P, C9300-24P'',
       r_managementIpAddress = Some ''10.0.0.1'', r_instanceUuid = ''U1'', r_family = None,
       r_role = None, r_errorCode = None, r_errorDescription = None \<rparr>"

definition ex_nexus :: raw_device where
  "ex_nexus = ex_device \<lparr> r_id := ''N1'', r_type := Some ''Cisco Nexus 9000 Switch'' \<rparr>"

definition ex_ext :: externals where
  "ex_ext =
     \<lparr> re_search_group1 = (\<lambda>_ _. None),
       net_contains_or_equals = (\<lambda>_ _. False),
       canonical_interface_name = (\<lambda>n. n),
       save_new_device =
         (\<lambda>i d. Some (i \<lparr> devices := devices i
                             @ [d \<lparr> dev_id := next_id (map dev_id (devices i)) \<rparr>] \<rparr>,
                       next_id (map dev_id (devices i)))),
       write_components = (\<lambda>i p n. (i, False)) \<rparr>"

definition ex_ctrl :: sdn_controller_row where
  "ex_ctrl = \<lparr> ctrl_id = 1, sdn_type = ''Catalyst Center'', default_tenant = Some 4,
               regex_template = [] \<rparr>"

definition ex_inventory :: inventory where
  "ex_inventory =
     \<lparr> devices = [\<lparr> dev_id = 1, dev_name = ''host-1'', dev_serial = ''AAA'', dev_site = 5,
                    dev_tenant = None, dev_role = 3, dev_device_type = 7,
                    dev_primary_ip4 = None \<rparr>],
       ip_addresses = [],
       device_types = [\<lparr> dt_id = 7, dt_model = ''C9300-48P'', dt_part_number = [],
                         dt_manufacturer = ''Cisco'' \<rparr>],
       prefixes = [], sites = [], device_roles = [], interfaces = [], module_bays = [],
       interface_templates = [] \<rparr>"

definition empty_inventory :: inventory where
  "empty_inventory =
     \<lparr> devices = [], ip_addresses = [], device_types = [], prefixes = [], sites = [],
       device_roles = [], interfaces = [], module_bays = [], interface_templates = [] \<rparr>"

definition ex_world :: world where
  "ex_world = \<lparr> inv = ex_inventory, prototypes = [], script_log = [] \<rparr>"

definition ex_unit1 :: unit_device where
  "ex_unit1 =
     serial_unit (parent_unit ex_device ''host''
                    \<lparr> is_multiple := True, unit_stack_info := [(''AAA'', 1), (''BBB'', 2)] \<rparr>)
       2 1 ''AAA'' ''C9300-48P''"

definition ex_unit2 :: unit_device where
  "ex_unit2 =
     serial_unit (parent_unit ex_device ''host''
                    \<lparr> is_multiple := True, unit_stack_info := [(''AAA'', 1), (''BBB'', 2)] \<rparr>)
       2 2 ''BBB'' '' C9300-24P''"

text \<open>A module that names its switch but no slot, on a two-unit stack and on a single unit.\<close>

definition ex_module :: dnac_module where
  "ex_module = \<lparr> mod_name = ''Switch 1 Uplink'', mod_serialNumber = ''MOD12345'',
                 mod_partNumber = Some ''C9300-NM-8X'', mod_description = None,
                 dnac_name = None, slotnumber = None, switchnumber = None \<rparr>"

definition ex_module_api :: controller_api where
  "ex_module_api = ex_api \<lparr> get_modules := (\<lambda>_. [ex_module]) \<rparr>"

definition ex_single_unit :: unit_device where
  "ex_single_unit = ex_unit1 \<lparr> total_serial := 1, is_multiple := False \<rparr>"



text \<open>
  A stored prototype for the first unit, imported earlier and corrected by an operator
  (device type, primary address, site, tenant and role differ from what a fetch resolves).
\<close>

definition ex_stored :: prototype where
  "ex_stored =
     \<lparr> proto_id = Some 1, serial = Some ''AAA'', sdn_hostname = Some ''old-name'',
       sdn_management_ip = None, primary_ip4 = Some 99, matching_netbox_device = None,
       related_netbox_device = None, sdn_device_type = Some ''OLD'', device_type = Some 9,
       sdn_role = None, role = Some 2, raw_data = ex_unit1, stack_info = [],
       stack_index = ''1'', sdn_controller = 1, instance_uuid = ''U1'', family = None,
       site = Some 8, tenant = Some 6, sync_status = IMPORTED, score = 3 \<rparr>"

definition ex_stored_world :: world where
  "ex_stored_world = \<lparr> inv = ex_inventory, prototypes = [ex_stored], script_log = [] \<rparr>"

text \<open>
  Two single devices with the keys (U1, S1) and (U2, S2), and a store that holds a prototype
  for each.
\<close>

definition ex_unit_a :: unit_device where
  "ex_unit_a =
     \<lparr> unit_id = ''U1'', hostname = ''alpha'', serialNumber = Some ''S1'',
       platformId = Some ''C9200L-24T'', managementIpAddress = None, instanceUuid = ''U1'',
       unit_family = None, unit_role = None, errorCode = None, errorDescription = None,
       rank = 1, total_serial = 1, is_multiple = False, unit_stack_info = [(''S1'', 1)],
       unit_interfaces = [], unit_modules = [], managementIpAddressInterface = None \<rparr>"

definition ex_unit_b :: unit_device where
  "ex_unit_b = ex_unit_a \<lparr> unit_id := ''U2'', hostname := ''beta'', serialNumber := Some ''S2'',
                           instanceUuid := ''U2'', unit_stack_info := [(''S2'', 1)] \<rparr>"

definition ex_proto_a :: prototype where
  "ex_proto_a =
     \<lparr> proto_id = Some 1, serial = Some ''S1'', sdn_hostname = Some ''alpha'',
       sdn_management_ip = None, primary_ip4 = None, matching_netbox_device = None,
       related_netbox_device = None, sdn_device_type = Some ''C9200L-24T'', device_type = None,
       sdn_role = None, role = None, raw_data = ex_unit_a, stack_info = [(''S1'', 1)],
       stack_index = ''1'', sdn_controller = 1, instance_uuid = ''U1'', family = None,
       site = None, tenant = Some 4, sync_status = DISCOVERED, score = 0 \<rparr>"

definition ex_proto_b :: prototype where
  "ex_proto_b = ex_proto_a \<lparr> proto_id := Some 2, serial := Some ''S2'',
                             sdn_hostname := Some ''beta'', raw_data := ex_unit_b,
                             stack_info := [(''S2'', 1)], instance_uuid := ''U2'' \<rparr>"

definition ex_two_world :: world where
  "ex_two_world = \<lparr> inv = empty_inventory, prototypes = [ex_proto_a, ex_proto_b],
                    script_log = [] \<rparr>"

text \<open>
  A prototype of a single device with every required field set and the inventory's device as
  its matching device; a store where an imported prototype lacks its site; and a store with
  a deleted prototype.
\<close>

definition ex_ready :: prototype where
  "ex_ready =
     \<lparr> proto_id = Some 1, serial = Some ''AAA'', sdn_hostname = Some ''host-1'',
       sdn_management_ip = None, primary_ip4 = None, matching_netbox_device = Some 1,
       related_netbox_device = None, sdn_device_type = Some ''C9300-48P'', device_type = Some 7,
       sdn_role = None, role = Some 3, raw_data = ex_unit_a, stack_info = [(''AAA'', 1)],
       stack_index = ''1'', sdn_controller = 1, instance_uuid = ''U9'', family = None,
       site = Some 5, tenant = Some 4, sync_status = DISCOVERED, score = 9 \<rparr>"

definition ex_ready_world :: world where
  "ex_ready_world = \<lparr> inv = ex_inventory, prototypes = [ex_ready], script_log = [] \<rparr>"

definition ex_imported_world :: world where
  "ex_imported_world =
     \<lparr> inv = empty_inventory,
       prototypes = [ex_proto_a \<lparr> sync_status := IMPORTED \<rparr>, ex_proto_b],
       script_log = [] \<rparr>"

definition ex_deleted_world :: world where
  "ex_deleted_world =
     \<lparr> inv = empty_inventory,
       prototypes = [ex_proto_a, ex_proto_b \<lparr> sync_status := DELETED \<rparr>],
       script_log = [] \<rparr>"


definition ex_inventory_after :: inventory where
  "ex_inventory_after =
     ex_inventory \<lparr> ip_addresses := [\<lparr> ip_id = 1, address = ''10.0.0.1'', ip_tenant = Some 4 \<rparr>] \<rparr>"

definition ex_refetched :: prototype where
  "ex_refetched =
     \<lparr> proto_id = Some 1, serial = Some ''AAA'', sdn_hostname = Some ''host-1'',
       sdn_management_ip = Some ''10.0.0.1'', primary_ip4 = Some 99,
       matching_netbox_device = Some 1, related_netbox_device = Some 1,
       sdn_device_type = Some ''C9300-48P'', device_type = Some 9, sdn_role = None,
       role = Some 2, raw_data = ex_unit1, stack_info = [(''AAA'', 1), (''BBB'', 2)],
       stack_index = ''1'', sdn_controller = 1, instance_uuid = ''U1'', family = None,
       site = Some 8, tenant = Some 6, sync_status = DISCOVERED, score = 10 \<rparr>"

section \<open>Properties\<close>

subsection \<open>Interface validity\<close>







subsection \<open>The device splitter\<close>









subsection \<open>Devices of a Nexus type\<close>

lemma split_device_list_append:
  "split_device_list api uuids (xs @ ys) =
     (case split_device_list api uuids xs of
        Inl e \<Rightarrow> Inl e
      | Inr a \<Rightarrow> (case split_device_list api uuids ys of Inl e \<Rightarrow> Inl e | Inr b \<Rightarrow> Inr (a @ b)))"
  by (induction xs) (auto split: sum.splits)

text \<open>
  C10. A device record whose reported type contains \<^verbatim>\<open>nexus\<close> in any letter case yields no
  unit, and the unit list of a pass is the one the pass would compute if the controller did not
  report the device at all; prototypes are built from the units only, so none is built for it.
\<close>

theorem nexus_device_yields_no_units:
  assumes "r_type d = Some t" and "contains ''nexus'' (lower t)"
  shows "split_device api uuids d = Inr [] \<and>
         split_device_list api uuids (ds1 @ d # ds2) = split_device_list api uuids (ds1 @ ds2)"
proof -
  have 1: "split_device api uuids d = Inr []"
    using assms by (simp add: split_device_def)
  have 2: "split_device_list api uuids (d # ds2) = split_device_list api uuids ds2"
    by (cases "split_device_list api uuids ds2") (simp_all add: 1)
  have "split_device_list api uuids (ds1 @ d # ds2) = split_device_list api uuids (ds1 @ ds2)"
    unfolding split_device_list_append[of api uuids ds1] 2 ..
  then show ?thesis using 1 by simp
qed

theorem nexus_device_yields_no_units_witness:
  "r_type ex_nexus = Some ''Cisco Nexus 9000 Switch'' \<and>
   contains ''nexus'' (lower ''Cisco Nexus 9000 Switch'') \<and>
   split_device ex_api None ex_nexus = Inr [] \<and>
   split_device_list ex_api None ([ex_device] @ ex_nexus # []) =
     split_device_list ex_api None ([ex_device] @ [])"
proof -
  have ty: "r_type ex_nexus = Some ''Cisco Nexus 9000 Switch''"
    by (simp add: ex_nexus_def)
  have nx: "contains ''nexus'' (lower ''Cisco Nexus 9000 Switch'')" by code_simp
  show ?thesis
    using nexus_device_yields_no_units[OF ty nx, of ex_api None "[ex_device]" "[]"] ty nx
    by simp
qed

subsection \<open>Module positions\<close>

lemma position_module_default:
  assumes nocard: "map_of allcardsdict (mod_serialNumber m) = None"
      and sw: "sw = (if \<not> is_multiple u then Some ''1'' else extract_chassis_number (mod_name m))"
      and known: "truthy sw"
      and noslot: "\<not> truthy (extract_slot_or_module_number (mod_name m))"
      and count: "total_serial u = n"
  shows "slotnumber (position_module allcardsdict u n m) = Some ''1'' \<and>
         switchnumber (position_module allcardsdict u n m) = sw \<and>
         mod_name (position_module allcardsdict u n m) = ''Switch '' @ the sw @ '' Module 1'' \<and>
         dnac_name (position_module allcardsdict u n m) = Some (mod_name m)"
  using assms
  by (auto simp: position_module_def Let_def truthy_def split: option.splits)

text \<open>
  C9, as the code has it. For a module that is not in the card index, with a known switch
  number and no slot number inferred from its name: when the number of modules of the device
  (those with a serial number longer than three characters) equals the unit's
  \<^verbatim>\<open>total_serial\<close>, the slot number becomes \<^verbatim>\<open>"1"\<close> and the module is renamed
  \<^verbatim>\<open>Switch <s> Module 1\<close>.
\<close>

theorem default_slot_number:
  assumes mods: "modules = filter (\<lambda>apimodule. length (mod_serialNumber apimodule) > 3)
                             (get_modules api (unit_id u))"
      and cards: "allcardsdict = element_list_to_dict serialno
                    (get_linecard_details_v1 api (unit_id u)
                     @ get_supervisor_card_detail_v1 api (unit_id u))"
      and k: "k < length modules"
      and nocard: "map_of allcardsdict (mod_serialNumber (modules ! k)) = None"
      and sw: "sw = (if \<not> is_multiple u then Some ''1''
                     else extract_chassis_number (mod_name (modules ! k)))"
      and known: "truthy sw"
      and noslot: "\<not> truthy (extract_slot_or_module_number (mod_name (modules ! k)))"
      and count: "total_serial u = length modules"
  shows "slotnumber (extract_module_positions api u ! k) = Some ''1'' \<and>
         switchnumber (extract_module_positions api u ! k) = sw \<and>
         mod_name (extract_module_positions api u ! k) = ''Switch '' @ the sw @ '' Module 1''"
proof -
  have "extract_module_positions api u ! k
          = position_module allcardsdict u (length modules) (modules ! k)"
    using k by (simp add: extract_module_positions_def Let_def mods[symmetric] cards[symmetric])
  then show ?thesis
    using position_module_default[OF nocard sw known noslot count] by simp
qed

theorem default_slot_number_witness:
  "extract_module_positions ex_module_api ex_single_unit
     = [ex_module \<lparr> mod_name := ''Switch 1 Module 1'', dnac_name := Some ''Switch 1 Uplink'',
                     slotnumber := Some ''1'', switchnumber := Some ''1'' \<rparr>] \<and>
   slotnumber (extract_module_positions ex_module_api ex_single_unit ! 0) = Some ''1'' \<and>
   mod_name (extract_module_positions ex_module_api ex_single_unit ! 0)
     = ''Switch '' @ the (Some ''1'') @ '' Module 1''"
proof -
  have mods: "[ex_module] = filter (\<lambda>apimodule. length (mod_serialNumber apimodule) > 3)
                              (get_modules ex_module_api (unit_id ex_single_unit))"
    by code_simp
  have cards: "[] = element_list_to_dict serialno
                      (get_linecard_details_v1 ex_module_api (unit_id ex_single_unit)
                       @ get_supervisor_card_detail_v1 ex_module_api (unit_id ex_single_unit))"
    by code_simp
  have k: "0 < length [ex_module]" by simp
  have nocard: "map_of [] (mod_serialNumber ([ex_module] ! 0)) = None" by simp
  have sw: "Some ''1'' = (if \<not> is_multiple ex_single_unit then Some ''1''
                          else extract_chassis_number (mod_name ([ex_module] ! 0)))"
    by code_simp
  have known: "truthy (Some ''1'')" by code_simp
  have noslot: "\<not> truthy (extract_slot_or_module_number (mod_name ([ex_module] ! 0)))"
    by code_simp
  have count: "total_serial ex_single_unit = length [ex_module]" by code_simp
  have v: "extract_module_positions ex_module_api ex_single_unit
     = [ex_module \<lparr> mod_name := ''Switch 1 Module 1'', dnac_name := Some ''Switch 1 Uplink'',
                     slotnumber := Some ''1'', switchnumber := Some ''1'' \<rparr>]"
    by code_simp
  from default_slot_number[OF mods cards k nocard sw known noslot count] v
  show ?thesis by simp
qed

text \<open>
  The same module on a unit of a two-unit stack: the unit has exactly one module, its switch
  number is known and no slot number is inferred, yet the slot number is left unset and the
  module keeps its name, because \<^verbatim>\<open>total_serial\<close> is 2.
\<close>

theorem default_slot_number_counterexample:
  "get_modules ex_module_api (unit_id ex_unit1) = [ex_module] \<and>
   length (mod_serialNumber ex_module) = 8 \<and>
   get_linecard_details_v1 ex_module_api (unit_id ex_unit1) = [] \<and>
   get_supervisor_card_detail_v1 ex_module_api (unit_id ex_unit1) = [] \<and>
   is_multiple ex_unit1 \<and> total_serial ex_unit1 = 2 \<and>
   extract_chassis_number (mod_name ex_module) = Some ''1'' \<and>
   extract_slot_or_module_number (mod_name ex_module) = None \<and>
   extract_module_positions ex_module_api ex_unit1
     = [ex_module \<lparr> dnac_name := Some ''Switch 1 Uplink'', switchnumber := Some ''1'' \<rparr>] \<and>
   slotnumber (ex_module \<lparr> dnac_name := Some ''Switch 1 Uplink'', switchnumber := Some ''1'' \<rparr>)
     = None"
  by code_simp

subsection \<open>Interface attributes\<close>









subsection \<open>The score\<close>

lemma find_by_id:
  "distinct (map dev_id ds) \<Longrightarrow> d \<in> set ds \<Longrightarrow> find (\<lambda>x. dev_id x = dev_id d) ds = Some d"
  by (induction ds) (auto simp: image_iff)

lemma find_in_set: "find P xs = Some x \<Longrightarrow> x \<in> set xs \<and> P x"
  by (induction xs) (auto split: if_splits)

lemma save_device_ids [simp]: "map dev_id (devices (save_device d i)) = map dev_id (devices i)"
  by (simp add: save_device_def comp_def cong: map_cong)

lemma save_device_get:
  assumes "distinct (map dev_id (devices i))" and "d0 \<in> set (devices i)" and "dev_id d = dev_id d0"
  shows "get_device (save_device d i) (Some (dev_id d)) = Some d"
proof -
  have "d \<in> set (devices (save_device d i))"
    using assms(2,3) by (force simp: save_device_def image_iff)
  moreover have "distinct (map dev_id (devices (save_device d i)))"
    using assms(1) by simp
  ultimately show ?thesis
    by (simp add: get_device_def find_by_id)
qed

lemma find_matching_device_stored:
  assumes "find_matching_device i host ser = (Some m, i1)"
      and "distinct (map dev_id (devices i))"
  shows "get_device i1 (Some (dev_id m)) = Some m \<and> ser = Some (dev_serial m) \<and>
         distinct (map dev_id (devices i1))"
proof -
  from assms(1) obtain m0 where m0: "find (\<lambda>d. Some (dev_serial d) = ser) (devices i) = Some m0"
    by (auto simp: find_matching_device_def split: option.splits)
  then have in0: "m0 \<in> set (devices i)" and s0: "Some (dev_serial m0) = ser"
    using find_in_set by fastforce+
  show ?thesis
  proof (cases "m = m0 \<and> i1 = i")
    case True
    then show ?thesis using in0 s0 assms(2) by (auto simp: get_device_def find_by_id)
  next
    case False
    then have m: "m = m0 \<lparr> dev_name := dev_name m0 @ ''-1'' \<rparr>" and i1: "i1 = save_device m i"
      using assms(1) m0 by (auto simp: find_matching_device_def Let_def split: if_splits)
    have "get_device (save_device m i) (Some (dev_id m)) = Some m"
      by (rule save_device_get[OF assms(2) in0]) (simp add: m)
    then show ?thesis using s0 assms(2) by (simp add: m i1)
  qed
qed

lemma find_matching_device_none:
  assumes "find_matching_device i host ser = (None, i1)"
  shows "i1 = i"
  using assms by (auto simp: find_matching_device_def Let_def split: option.splits if_splits)

lemma resolve_primary_ip4_devices:
  "resolve_primary_ip4 ext i ten ip = (p, s, i') \<Longrightarrow> devices i' = devices i"
  by (auto simp: resolve_primary_ip4_def Let_def split: if_splits option.splits prod.splits)

lemma find_related_device_in:
  "find_related_device i matching host primary = Some r \<Longrightarrow> r \<in> set (devices i)"
  by (auto simp: find_related_device_def Let_def split: if_splits dest: find_in_set)

lemma adopt_serial_cases:
  assumes "adopt_serial i matching related ser = (matching', related', i')"
  shows "(matching' = matching \<and> i' = i) \<or>
         (matching = None \<and> (\<exists>r. related = Some r \<and> truthy ser \<and>
             matching' = Some (r \<lparr> dev_serial := the ser \<rparr>) \<and>
             i' = save_device (r \<lparr> dev_serial := the ser \<rparr>) i))"
  using assms by (auto simp: adopt_serial_def Let_def split: option.splits if_splits)

lemma get_device_devices_cong:
  "devices i' = devices i \<Longrightarrow> get_device i' k = get_device i k"
  by (cases k) (simp_all add: get_device_def)

lemma build_candidate_matching_stored:
  assumes b: "build_candidate ext ctrl u i = Inr (c, i')"
      and d: "distinct (map dev_id (devices i))"
  shows "(matching_netbox_device c = None \<longrightarrow>
            score c = (if primary_ip4 c \<noteq> None then 1 else 0)
                    + (if device_type c \<noteq> None then 1 else 0)
                    + (if site c \<noteq> None then 1 else 0)) \<and>
         (matching_netbox_device c \<noteq> None \<longrightarrow>
            (\<exists>m. get_device i' (matching_netbox_device c) = Some m \<and>
                  serial c = Some (dev_serial m) \<and>
                  score c = 5 + 1 + (if sdn_hostname c = Some (dev_name m) then 1 else 0)
                    + (if primary_ip4 c \<noteq> None then 1 else 0)
                    + (if device_type c \<noteq> None then 1 else 0)
                    + (if site c \<noteq> None then 1 else 0)))"
proof -
  from b obtain sdn_ip where ip: "management_ip u = Inr sdn_ip"
    by (auto simp: build_candidate_def split: sum.splits)
  define host where "host = first_label (hostname u)"
  define ser where "ser = serialNumber u"
  obtain matching0 i1 where fm: "find_matching_device i host ser = (matching0, i1)"
    by (cases "find_matching_device i host ser")
  define dtype where "dtype = find_device_type i1 (platformId u)"
  obtain primary site0 i2 where
    rp: "resolve_primary_ip4 ext i1 (default_tenant ctrl) sdn_ip = (primary, site0, i2)"
    by (cases "resolve_primary_ip4 ext i1 (default_tenant ctrl) sdn_ip") auto
  define related0 where "related0 = find_related_device i2 matching0 host primary"
  obtain matching related i3 where
    ad: "adopt_serial i2 matching0 related0 ser = (matching, related, i3)"
    by (cases "adopt_serial i2 matching0 related0 ser") auto
  define site1 where "site1 = (case matching of None \<Rightarrow> site0 | Some m \<Rightarrow> Some (dev_site m))"
  define site2 where "site2 = infer_site ext ctrl i3 host site1"
  from b have i': "i' = i3"
    and cm: "matching_netbox_device c = map_option dev_id matching"
    and cs: "serial c = ser" and ch: "sdn_hostname c = Some host"
    and cp: "primary_ip4 c = map_option ip_id primary"
    and cd: "device_type c = map_option dt_id dtype"
    and cst: "site c = site2"
    and sc: "score c = compute_score matching ser host primary dtype site2"
    using ip fm rp ad
    by (auto simp: build_candidate_def Let_def host_def ser_def dtype_def related0_def
                   site1_def site2_def)
  have d2: "devices i2 = devices i1" using resolve_primary_ip4_devices[OF rp] .
  have stored: "\<And>m. matching = Some m \<Longrightarrow>
                  get_device i3 (Some (dev_id m)) = Some m \<and> ser = Some (dev_serial m)"
  proof -
    fix m assume M: "matching = Some m"
    from adopt_serial_cases[OF ad]
    show "get_device i3 (Some (dev_id m)) = Some m \<and> ser = Some (dev_serial m)"
    proof
      assume A: "matching = matching0 \<and> i3 = i2"
      then have "find_matching_device i host ser = (Some m, i1)" using fm M by simp
      from find_matching_device_stored[OF this d] show ?thesis
        using A get_device_devices_cong[OF d2] by simp
    next
      assume "matching0 = None \<and> (\<exists>r. related0 = Some r \<and> truthy ser \<and>
             matching = Some (r \<lparr> dev_serial := the ser \<rparr>) \<and>
             i3 = save_device (r \<lparr> dev_serial := the ser \<rparr>) i2)"
      then obtain r where m0: "matching0 = None" and r: "related0 = Some r" and t: "truthy ser"
        and m: "m = r \<lparr> dev_serial := the ser \<rparr>" and i3: "i3 = save_device m i2"
        using M by auto
      have i1: "i1 = i" using find_matching_device_none fm m0 by simp
      have rin: "r \<in> set (devices i2)"
        using r find_related_device_in unfolding related0_def by blast
      have dd: "distinct (map dev_id (devices i2))" using d d2 i1 by simp
      have "get_device (save_device m i2) (Some (dev_id m)) = Some m"
        by (rule save_device_get[OF dd rin]) (simp add: m)
      moreover have "ser = Some (dev_serial m)" using t by (cases ser) (auto simp: m truthy_def)
      ultimately show ?thesis by (simp add: i3)
    qed
  qed
  show ?thesis
  proof (cases matching)
    case None
    then show ?thesis
      by (simp add: cm sc cp cd cst compute_score_def Let_def)
  next
    case (Some m)
    from stored[OF Some] have g: "get_device i3 (Some (dev_id m)) = Some m"
      and s: "ser = Some (dev_serial m)"
      by simp_all
    show ?thesis
      using g s by (simp add: Some cm sc cp cd cst cs ch i' compute_score_def Let_def)
  qed
qed

lemma upsert_score: "score (fst (upsert c table)) = score c"
  by (simp add: upsert_def overwrite_fields_def Let_def split: option.splits)

text \<open>
  C6. The score of the candidate that a fetch pass builds for a unit is the sum of 5 when a
  matching device was found, 1 when the prototype's serial equals the matching device's, 1
  when its hostname equals the matching device's name, 1 when a primary IPv4 address was
  resolved or created, 1 when a device type was resolved and 1 when a site was resolved; it
  is the score stored with the prototype. (Device identifiers are unique.)
\<close>

theorem score_is_additive:
  assumes b: "build_candidate ext ctrl u i = Inr (c, i')"
      and d: "distinct (map dev_id (devices i))"
  shows "score c =
           (if matching_netbox_device c \<noteq> None then 5 else 0)
         + (if \<exists>m. get_device i' (matching_netbox_device c) = Some m
                   \<and> serial c = Some (dev_serial m) then 1 else 0)
         + (if \<exists>m. get_device i' (matching_netbox_device c) = Some m
                   \<and> sdn_hostname c = Some (dev_name m) then 1 else 0)
         + (if primary_ip4 c \<noteq> None then 1 else 0)
         + (if device_type c \<noteq> None then 1 else 0)
         + (if site c \<noteq> None then 1 else 0) \<and>
         (\<forall>w s w'. inv w = i \<and> process_prototype ext ctrl u w = Inr (s, w') \<longrightarrow> score s = score c)"
proof (intro conjI allI impI)
  show "score c =
           (if matching_netbox_device c \<noteq> None then 5 else 0)
         + (if \<exists>m. get_device i' (matching_netbox_device c) = Some m
                   \<and> serial c = Some (dev_serial m) then 1 else 0)
         + (if \<exists>m. get_device i' (matching_netbox_device c) = Some m
                   \<and> sdn_hostname c = Some (dev_name m) then 1 else 0)
         + (if primary_ip4 c \<noteq> None then 1 else 0)
         + (if device_type c \<noteq> None then 1 else 0)
         + (if site c \<noteq> None then 1 else 0)"
  proof (cases "matching_netbox_device c")
    case None
    then have "get_device i' (matching_netbox_device c) = None" by (simp add: get_device_def)
    then show ?thesis
      using build_candidate_matching_stored[OF b d] None by simp
  next
    case (Some k)
    with build_candidate_matching_stored[OF b d] obtain m where
      "get_device i' (matching_netbox_device c) = Some m" "serial c = Some (dev_serial m)"
      "score c = 5 + 1 + (if sdn_hostname c = Some (dev_name m) then 1 else 0)
                    + (if primary_ip4 c \<noteq> None then 1 else 0)
                    + (if device_type c \<noteq> None then 1 else 0)
                    + (if site c \<noteq> None then 1 else 0)"
      by auto
    then show ?thesis using Some by simp
  qed
next
  fix w s w'
  assume "inv w = i \<and> process_prototype ext ctrl u w = Inr (s, w')"
  then have "s = fst (upsert c (prototypes w))"
    using b by (auto simp: process_prototype_def Let_def split: prod.splits)
  then show "score s = score c" by (simp add: upsert_score)
qed

lemma ex_unit1_candidate:
  "map_sum id (\<lambda>(c, i'). (matching_netbox_device c, serial c, sdn_hostname c, primary_ip4 c,
                            device_type c, site c, score c, get_device i' (Some 1)))
     (build_candidate ex_ext ex_ctrl ex_unit1 ex_inventory)
   = Inr (Some 1, Some ''AAA'', Some ''host-1'', Some 1, Some 7, Some 5, 10,
          Some (hd (devices ex_inventory)))"
  by code_simp

lemma ex_unit2_candidate:
  "map_sum id (\<lambda>(c, i'). (matching_netbox_device c, primary_ip4 c, device_type c, site c, score c))
     (build_candidate ex_ext ex_ctrl ex_unit2 empty_inventory)
   = Inr (None, None, None, None, 0)"
  by code_simp

theorem score_is_additive_witness:
  "distinct (map dev_id (devices ex_inventory)) \<and>
   (\<exists>c i'. build_candidate ex_ext ex_ctrl ex_unit1 ex_inventory = Inr (c, i') \<and>
      matching_netbox_device c = Some 1 \<and> serial c = Some ''AAA'' \<and>
      sdn_hostname c = Some ''host-1'' \<and> primary_ip4 c \<noteq> None \<and> device_type c \<noteq> None \<and>
      site c \<noteq> None \<and>
      score c = 5 + 1 + 1 + 1 + 1 + 1 \<and> score c = 10 \<and>
      (\<forall>w s w'. inv w = ex_inventory \<and> process_prototype ex_ext ex_ctrl ex_unit1 w = Inr (s, w')
          \<longrightarrow> score s = 10)) \<and>
   distinct (map dev_id (devices empty_inventory)) \<and>
   (\<exists>c i'. build_candidate ex_ext ex_ctrl ex_unit2 empty_inventory = Inr (c, i') \<and>
      matching_netbox_device c = None \<and> primary_ip4 c = None \<and> device_type c = None \<and>
      site c = None \<and> score c = 0)"
proof -
  have d1: "distinct (map dev_id (devices ex_inventory))" by (simp add: ex_inventory_def)
  have d2: "distinct (map dev_id (devices empty_inventory))" by (simp add: empty_inventory_def)
  from ex_unit1_candidate obtain c i' where
    b: "build_candidate ex_ext ex_ctrl ex_unit1 ex_inventory = Inr (c, i')"
    and f: "matching_netbox_device c = Some 1" "serial c = Some ''AAA''"
      "sdn_hostname c = Some ''host-1''" "primary_ip4 c = Some 1" "device_type c = Some 7"
      "site c = Some 5"
    and g: "get_device i' (Some 1) = Some (hd (devices ex_inventory))"
    by (cases "build_candidate ex_ext ex_ctrl ex_unit1 ex_inventory") auto
  have m: "dev_serial (hd (devices ex_inventory)) = ''AAA''"
    "dev_name (hd (devices ex_inventory)) = ''host-1''"
    by (simp_all add: ex_inventory_def)
  note T = score_is_additive[OF b d1]
  have s10: "score c = 10" using T[THEN conjunct1] f g m by simp
  have st: "\<forall>w s w'. inv w = ex_inventory \<and> process_prototype ex_ext ex_ctrl ex_unit1 w = Inr (s, w')
          \<longrightarrow> score s = 10"
    using T[THEN conjunct2] s10 by simp
  from ex_unit2_candidate obtain c2 i2 where
    b2: "build_candidate ex_ext ex_ctrl ex_unit2 empty_inventory = Inr (c2, i2)"
    and f2: "matching_netbox_device c2 = None" "primary_ip4 c2 = None" "device_type c2 = None"
      "site c2 = None"
    by (cases "build_candidate ex_ext ex_ctrl ex_unit2 empty_inventory") auto
  have s0: "score c2 = 0"
    using score_is_additive[OF b2 d2, THEN conjunct1] f2 by (simp add: get_device_def)
  show ?thesis
    using d1 d2 b f s10 st b2 f2 s0 by auto
qed

subsection \<open>The upsert\<close>

lemma find_replace_first:
  "find P xs = Some e \<Longrightarrow> P y \<Longrightarrow> find P (replace_first P y xs) = Some y"
  by (induction xs) (auto split: if_splits)

lemma replace_first_length [simp]: "length (replace_first P y xs) = length xs"
  by (induction xs) auto

lemma replace_first_other:
  "j < length xs \<Longrightarrow> \<not> P (xs ! j) \<Longrightarrow> replace_first P y xs ! j = xs ! j"
proof (induction xs arbitrary: j)
  case Nil
  then show ?case by simp
next
  case (Cons x xs)
  then show ?case by (cases j) auto
qed



lemma build_candidate_key:
  assumes "build_candidate ext ctrl u i = Inr (c, i')"
  shows "instance_uuid c = instanceUuid u" and "serial c = serialNumber u"
    and "sync_status c = DISCOVERED" and "sdn_controller c = ctrl_id ctrl"
    and "proto_id c = None"
  using assms
  by (auto simp: build_candidate_def Let_def split: sum.splits prod.splits)





subsection \<open>Deletion detection\<close>

lemma same_key_iff: "same_key c p \<longleftrightarrow> prototype_key p = prototype_key c"
  by (auto simp: same_key_def prototype_key_def)

lemma find_replace_first_other:
  "\<not> Q y \<Longrightarrow> (\<And>x. Q x \<Longrightarrow> \<not> P x) \<Longrightarrow> find Q (replace_first P y xs) = find Q xs"
  by (induction xs) auto

lemma find_append_miss: "\<not> Q y \<Longrightarrow> find Q (xs @ [y]) = find Q xs"
  by (induction xs) auto

lemma find_append_new: "find Q xs = None \<Longrightarrow> Q y \<Longrightarrow> find Q (xs @ [y]) = Some y"
  by (induction xs) (auto split: if_splits)

lemma upsert_table:
  assumes "upsert c table = (s, table')"
  shows "prototype_key s = prototype_key c"
    and "sync_status s = sync_status c"
    and "find_prototype table' (prototype_key c) = Some s"
    and "length table \<le> length table'"
    and "\<And>j. j < length table \<Longrightarrow> prototype_key (table ! j) \<noteq> prototype_key c
            \<Longrightarrow> table' ! j = table ! j"
    and "\<And>k. k \<noteq> prototype_key c \<Longrightarrow> find_prototype table' k = find_prototype table k"
proof -
  have fk: "find (same_key c) = find (\<lambda>p. prototype_key p = prototype_key c)"
    by (simp add: same_key_iff[abs_def])
  show "prototype_key s = prototype_key c"
    using assms
    by (auto simp: upsert_def Let_def prototype_key_def overwrite_fields_def split: option.splits)
  then have ks: "same_key c s" by (simp add: same_key_iff)
  show "sync_status s = sync_status c"
    using assms by (auto simp: upsert_def Let_def overwrite_fields_def split: option.splits)
  show "find_prototype table' (prototype_key c) = Some s"
  proof (cases "find (same_key c) table")
    case None
    then have "table' = table @ [s]" using assms by (auto simp: upsert_def Let_def)
    then show ?thesis
      using None ks find_append_new[of "same_key c" table s]
      by (simp add: find_prototype_def fk)
  next
    case (Some e)
    then have "table' = replace_first (same_key c) s table"
      using assms by (auto simp: upsert_def Let_def)
    then show ?thesis
      using find_replace_first[OF Some ks] by (simp add: find_prototype_def fk)
  qed
  show "length table \<le> length table'"
    using assms by (auto simp: upsert_def Let_def split: option.splits)
  show "\<And>j. j < length table \<Longrightarrow> prototype_key (table ! j) \<noteq> prototype_key c
            \<Longrightarrow> table' ! j = table ! j"
    using assms
    by (auto simp: upsert_def Let_def nth_append same_key_iff replace_first_other
             split: option.splits)
  show "\<And>k. k \<noteq> prototype_key c \<Longrightarrow> find_prototype table' k = find_prototype table k"
  proof -
    fix k assume k: "k \<noteq> prototype_key c"
    show "find_prototype table' k = find_prototype table k"
    proof (cases "find (same_key c) table")
      case None
      then have "table' = table @ [s]" using assms by (auto simp: upsert_def Let_def)
      then show ?thesis
        using k \<open>prototype_key s = prototype_key c\<close>
        by (simp add: find_prototype_def find_append_miss)
    next
      case (Some e)
      then have t: "table' = replace_first (same_key c) s table"
        using assms by (auto simp: upsert_def Let_def)
      have "find (\<lambda>p. prototype_key p = k) (replace_first (same_key c) s table)
              = find (\<lambda>p. prototype_key p = k) table"
        by (rule find_replace_first_other)
           (use k \<open>prototype_key s = prototype_key c\<close> in \<open>auto simp: same_key_iff\<close>)
      then show ?thesis by (simp add: find_prototype_def t)
    qed
  qed
qed

lemma process_prototype_table:
  assumes "process_prototype ext ctrl u w = Inr (s, w')"
  shows "prototype_key s = unit_key u"
    and "sync_status s = DISCOVERED"
    and "find_prototype (prototypes w') (unit_key u) = Some s"
    and "length (prototypes w) \<le> length (prototypes w')"
    and "\<And>j. j < length (prototypes w) \<Longrightarrow> prototype_key (prototypes w ! j) \<noteq> unit_key u
            \<Longrightarrow> prototypes w' ! j = prototypes w ! j"
    and "\<And>k. k \<noteq> unit_key u \<Longrightarrow> find_prototype (prototypes w') k = find_prototype (prototypes w) k"
proof -
  from assms obtain c i where b: "build_candidate ext ctrl u (inv w) = Inr (c, i)"
    and up: "upsert c (prototypes w) = (s, prototypes w')"
    by (auto simp: process_prototype_def Let_def split: sum.splits prod.splits)
  have kc: "prototype_key c = unit_key u"
    using build_candidate_key(1,2)[OF b] by (simp add: prototype_key_def unit_key_def)
  note U = upsert_table[OF up, unfolded kc]
  show "prototype_key s = unit_key u" by (rule U(1))
  show "sync_status s = DISCOVERED" using U(2) build_candidate_key(3)[OF b] by simp
  show "find_prototype (prototypes w') (unit_key u) = Some s" by (rule U(3))
  show "length (prototypes w) \<le> length (prototypes w')" by (rule U(4))
  show "\<And>j. j < length (prototypes w) \<Longrightarrow> prototype_key (prototypes w ! j) \<noteq> unit_key u
            \<Longrightarrow> prototypes w' ! j = prototypes w ! j" by (rule U(5))
  show "\<And>k. k \<noteq> unit_key u \<Longrightarrow> find_prototype (prototypes w') k = find_prototype (prototypes w) k"
    by (rule U(6))
qed



lemma mark_deleted_rows:
  "prototypes (mark_deleted ctrl ps w) =
     map (\<lambda>p. if sdn_controller p = ctrl_id ctrl \<and> prototype_key p \<notin> set (map prototype_key ps)
               then p \<lparr> sync_status := DELETED \<rparr> else p) (prototypes w)"
  by (simp add: mark_deleted_def Let_def)









subsection \<open>Validation and the importer\<close>

lemma log_failures_result:
  "log_failures b fs (ml, lg) = (ml', lg') \<Longrightarrow>
     set ml' = set ml \<union> set fs \<and> set lg \<subseteq> set lg' \<and>
     (b \<longrightarrow> (\<forall>m\<in>set fs. m \<notin> set ml \<longrightarrow> (Failure, m) \<in> set lg'))"
proof (induction fs arbitrary: ml lg)
  case Nil
  then show ?case by simp
next
  case (Cons m fs)
  show ?case
  proof (cases "m \<in> set ml")
    case True
    then have "log_failures b fs (ml, lg) = (ml', lg')" using Cons.prems by simp
    from Cons.IH[OF this] show ?thesis using True by auto
  next
    case False
    then have "log_failures b fs (ml @ [m], if b then lg @ [(Failure, m)] else lg) = (ml', lg')"
      using Cons.prems by simp
    from Cons.IH[OF this] show ?thesis using False by (auto split: if_splits)
  qed
qed

lemma validate_prototype_result:
  assumes "validate_prototype ext w sp ml b after = (ok, ml', w')"
  shows "ok = (stack_failures ext w after sp = [])"
    and "set ml' = set ml \<union> set (stack_failures ext w after sp)"
    and "prototypes w' = prototypes w" and "inv w' = inv w"
    and "set (script_log w) \<subseteq> set (script_log w')"
    and "b \<Longrightarrow> m \<in> set (stack_failures ext w after sp) \<Longrightarrow> m \<notin> set ml
           \<Longrightarrow> (Failure, m) \<in> set (script_log w')"
proof -
  obtain ml1 lg1 where l: "log_failures b (stack_failures ext w after sp) (ml, script_log w) = (ml1, lg1)"
    by (cases "log_failures b (stack_failures ext w after sp) (ml, script_log w)")
  from assms have ok: "ok = (stack_failures ext w after sp = [])" and ml': "ml' = ml1"
    and w': "w' = w \<lparr> script_log := lg1 \<rparr>"
    by (auto simp: validate_prototype_def Let_def l)
  note L = log_failures_result[OF l]
  show "ok = (stack_failures ext w after sp = [])" by (rule ok)
  show "set ml' = set ml \<union> set (stack_failures ext w after sp)" using L by (simp add: ml')
  show "prototypes w' = prototypes w" by (simp add: w')
  show "inv w' = inv w" by (simp add: w')
  show "set (script_log w) \<subseteq> set (script_log w')" using L by (simp add: w')
  show "b \<Longrightarrow> m \<in> set (stack_failures ext w after sp) \<Longrightarrow> m \<notin> set ml
           \<Longrightarrow> (Failure, m) \<in> set (script_log w')"
    using L by (simp add: w')
qed

lemma missing_field_failure:
  assumes "q \<in> set (prototypes w)" and "instance_uuid q = instance_uuid sp"
      and "f \<in> set required_fields" and "\<not> field_is_set q f"
  shows "MissingRequiredField (prototype_ref q) f \<in> set (stack_failures ext w after sp)"
proof -
  have "q \<in> set (same_stack_prototypes w sp)"
    using assms(1,2) by (simp add: same_stack_prototypes_def)
  moreover have "MissingRequiredField (prototype_ref q) f \<in> set (failures_of ext w after q)"
  proof -
    have "MissingRequiredField (prototype_ref q) f
            \<in> set (map (MissingRequiredField (prototype_ref q))
                     (filter (\<lambda>f. \<not> field_is_set q f) required_fields))"
      using assms(3,4) by auto
    then show ?thesis
      unfolding failures_of_def Let_def set_append by blast
  qed
  ultimately show ?thesis
    unfolding stack_failures_def set_concat set_map by blast
qed

lemma clean_prototype_interfaces_frame:
  "prototypes (clean_prototype_interfaces ext w sp) = prototypes w"
  "devices (inv (clean_prototype_interfaces ext w sp)) = devices (inv w)"
  "script_log (clean_prototype_interfaces ext w sp) = script_log w"
  by (simp_all add: clean_prototype_interfaces_def Let_def)

lemma find_save_prototype:
  assumes "find (\<lambda>p. proto_id p = Some pk) (prototypes w) = Some sp" and "proto_id p' = Some pk"
  shows "find (\<lambda>p. proto_id p = Some pk) (prototypes (save_prototype p' w)) = Some p'"
proof -
  have "\<And>xs. find (\<lambda>p. proto_id p = Some pk) xs = Some sp \<Longrightarrow>
          find (\<lambda>p. proto_id p = Some pk) (map (\<lambda>q. if proto_id q = proto_id p' then p' else q) xs)
            = Some p'"
  proof -
    fix xs show "find (\<lambda>p. proto_id p = Some pk) xs = Some sp \<Longrightarrow>
          find (\<lambda>p. proto_id p = Some pk) (map (\<lambda>q. if proto_id q = proto_id p' then p' else q) xs)
            = Some p'"
      using assms(2) by (induction xs) (auto split: if_splits)
  qed
  then show ?thesis using assms(1) by (simp add: save_prototype_def)
qed

lemma save_prototype_frame:
  "inv (save_prototype p w) = inv w" "script_log (save_prototype p w) = script_log w"
  "length (prototypes (save_prototype p w)) = length (prototypes w)"
  "j < length (prototypes w) \<Longrightarrow> proto_id (prototypes w ! j) \<noteq> proto_id p
     \<Longrightarrow> prototypes (save_prototype p w) ! j = prototypes w ! j"
  by (simp_all add: save_prototype_def)

lemma log_entry_frame:
  "inv (log_entry l m w) = inv w" "prototypes (log_entry l m w) = prototypes w"
  "script_log (log_entry l m w) = script_log w @ [(l, m)]"
  by (simp_all add: log_entry_def)

lemma import_prototype_invalid:
  assumes sel: "find (\<lambda>p. proto_id p = Some pk) (prototypes w) = Some sp"
      and pc: "pre_check ext b sp (w, ml) = (ok, ml1, w2)" and nok: "\<not> ok"
  shows "import_prototype ext b pk (w, ml)
           = (log_entry Info (PrototypeIsDiscovered (prototype_ref sp))
                (save_prototype (sp \<lparr> sync_status := DISCOVERED \<rparr>) w2), ml1)"
  using sel pc nok by (simp add: import_prototype_def)

text \<open>
  C4. For a prototype selected for import: when some stored prototype with the same
  \<^verbatim>\<open>instance_uuid\<close> has one of the required fields \<^verbatim>\<open>sdn_hostname\<close>, \<^verbatim>\<open>role\<close>,
  \<^verbatim>\<open>device_type\<close>, \<^verbatim>\<open>tenant\<close>, \<^verbatim>\<open>site\<close>, \<^verbatim>\<open>serial\<close> unset, the pre-check fails, the
  message naming that prototype and that field is in the message list afterwards (and in the
  script log when it is new and logging is on), the selected prototype is stored with
  \<^verbatim>\<open>sync_status\<close> Discovered, and the device table is what it was: no device is created or
  updated.
\<close>

theorem missing_required_field_blocks_import:
  assumes sel: "find (\<lambda>p. proto_id p = Some pk) (prototypes w) = Some sp"
      and q: "q \<in> set (prototypes w)" and uuid: "instance_uuid q = instance_uuid sp"
      and f: "f \<in> set required_fields" and unset: "\<not> field_is_set q f"
  shows "\<not> fst (pre_check ext b sp (w, ml)) \<and>
         MissingRequiredField (prototype_ref q) f
           \<in> set (snd (import_prototype ext b pk (w, ml))) \<and>
         (b \<and> MissingRequiredField (prototype_ref q) f \<notin> set ml \<longrightarrow>
            (Failure, MissingRequiredField (prototype_ref q) f)
              \<in> set (script_log (fst (import_prototype ext b pk (w, ml))))) \<and>
         find (\<lambda>p. proto_id p = Some pk) (prototypes (fst (import_prototype ext b pk (w, ml))))
           = Some (sp \<lparr> sync_status := DISCOVERED \<rparr>) \<and>
         devices (inv (fst (import_prototype ext b pk (w, ml)))) = devices (inv w) \<and>
         (Info, PrototypeIsDiscovered (prototype_ref sp))
           \<in> set (script_log (fst (import_prototype ext b pk (w, ml))))"
proof -
  let ?w1 = "clean_prototype_interfaces ext w sp"
  let ?m = "MissingRequiredField (prototype_ref q) f"
  obtain ok ml1 w2 where pc: "pre_check ext b sp (w, ml) = (ok, ml1, w2)"
    by (cases "pre_check ext b sp (w, ml)")
  then have v: "validate_prototype ext ?w1 sp ml b False = (ok, ml1, w2)"
    by (simp add: pre_check_def)
  note V = validate_prototype_result[OF v]
  have q1: "q \<in> set (prototypes ?w1)" using q by (simp add: clean_prototype_interfaces_frame)
  have mem: "?m \<in> set (stack_failures ext ?w1 False sp)"
    by (rule missing_field_failure[OF q1 uuid f unset])
  then have nok: "\<not> ok" using V(1) by auto
  have sel2: "find (\<lambda>p. proto_id p = Some pk) (prototypes w2) = Some sp"
    using sel V(3) by (simp add: clean_prototype_interfaces_frame)
  have pid: "proto_id (sp \<lparr> sync_status := DISCOVERED \<rparr>) = Some pk"
    using find_in_set[OF sel] by simp
  note R = import_prototype_invalid[OF sel pc nok]
  show ?thesis
  proof (intro conjI impI)
    show "\<not> fst (pre_check ext b sp (w, ml))" using pc nok by simp
    show "?m \<in> set (snd (import_prototype ext b pk (w, ml)))"
      unfolding R using mem V(2) by simp
    show "(Failure, ?m) \<in> set (script_log (fst (import_prototype ext b pk (w, ml))))"
      if "b \<and> ?m \<notin> set ml"
      unfolding R using V(6)[of ?m] that mem by (simp add: log_entry_frame save_prototype_frame)
    show "find (\<lambda>p. proto_id p = Some pk) (prototypes (fst (import_prototype ext b pk (w, ml))))
           = Some (sp \<lparr> sync_status := DISCOVERED \<rparr>)"
      unfolding R using find_save_prototype[OF sel2 pid] by (simp add: log_entry_frame)
    show "devices (inv (fst (import_prototype ext b pk (w, ml)))) = devices (inv w)"
      unfolding R using V(4)
      by (simp add: log_entry_frame save_prototype_frame clean_prototype_interfaces_frame)
    show "(Info, PrototypeIsDiscovered (prototype_ref sp))
           \<in> set (script_log (fst (import_prototype ext b pk (w, ml))))"
      unfolding R by (simp add: log_entry_frame)
  qed
qed
theorem missing_required_field_blocks_import_witness:
  "find (\<lambda>p. proto_id p = Some 1) (prototypes ex_imported_world)
     = Some (ex_proto_a \<lparr> sync_status := IMPORTED \<rparr>) \<and>
   ex_proto_a \<lparr> sync_status := IMPORTED \<rparr> \<in> set (prototypes ex_imported_world) \<and>
   ''site'' \<in> set required_fields \<and>
   \<not> field_is_set (ex_proto_a \<lparr> sync_status := IMPORTED \<rparr>) ''site'' \<and>
   \<not> fst (pre_check ex_ext True (ex_proto_a \<lparr> sync_status := IMPORTED \<rparr>)
            (ex_imported_world, [])) \<and>
   MissingRequiredField (prototype_ref (ex_proto_a \<lparr> sync_status := IMPORTED \<rparr>)) ''site''
     \<in> set (snd (import_prototype ex_ext True 1 (ex_imported_world, []))) \<and>
   find (\<lambda>p. proto_id p = Some 1)
     (prototypes (fst (import_prototype ex_ext True 1 (ex_imported_world, []))))
     = Some (ex_proto_a \<lparr> sync_status := DISCOVERED \<rparr>) \<and>
   devices (inv (fst (import_prototype ex_ext True 1 (ex_imported_world, [])))) = []"
proof -
  let ?sp = "ex_proto_a \<lparr> sync_status := IMPORTED \<rparr>"
  have sel: "find (\<lambda>p. proto_id p = Some 1) (prototypes ex_imported_world) = Some ?sp"
    by (simp add: ex_imported_world_def ex_proto_a_def)
  have q: "?sp \<in> set (prototypes ex_imported_world)" by (simp add: ex_imported_world_def)
  have f: "''site'' \<in> set required_fields" by (simp add: required_fields_def)
  have unset: "\<not> field_is_set ?sp ''site''" by (simp add: field_is_set_def ex_proto_a_def)
  have dv: "devices (inv ex_imported_world) = []"
    by (simp add: ex_imported_world_def empty_inventory_def)
  have upd: "?sp \<lparr> sync_status := DISCOVERED \<rparr> = ex_proto_a \<lparr> sync_status := DISCOVERED \<rparr>"
    by simp
  from missing_required_field_blocks_import[OF sel q refl f unset, of ex_ext True "[]"]
  show ?thesis using sel q f unset dv upd by simp
qed
lemma import_device_prototypes:
  "import_device ext sp w = Some (n, w3) \<Longrightarrow> prototypes w3 = prototypes w"
  by (auto simp: import_device_def Let_def log_entry_def
           split: option.splits if_splits prod.splits)

lemma import_writes_prototypes:
  "import_writes ext sp n w3 = (w4, raised) \<Longrightarrow>
     prototypes w4 = prototypes (save_prototype
                       (sp \<lparr> matching_netbox_device := Some n, sync_status := IMPORTED \<rparr>) w3)"
  by (auto simp: import_writes_def Let_def split: prod.splits)

lemma write_phase_prototypes:
  assumes "write_phase ext sp w2 = (w4, raised)"
  shows "(raised \<and> prototypes w4 = prototypes w2) \<or>
         (\<exists>n. prototypes w4 = prototypes (save_prototype
                  (sp \<lparr> matching_netbox_device := Some n, sync_status := IMPORTED \<rparr>) w2))"
proof (cases "import_device ext sp w2")
  case None
  then show ?thesis using assms by (simp add: write_phase_def)
next
  case (Some a)
  obtain n w3 where a: "a = (n, w3)" by (cases a)
  have "import_writes ext sp n w3 = (w4, raised)"
    using assms Some a by (simp add: write_phase_def)
  from import_writes_prototypes[OF this] import_device_prototypes[of ext sp w2 n w3]
  show ?thesis using Some a by (auto simp: save_prototype_def)
qed

lemma stack_failures_cong:
  "instance_uuid a = instance_uuid b \<Longrightarrow> stack_failures ext w after a = stack_failures ext w after b"
  by (simp add: stack_failures_def same_stack_prototypes_def)

lemma pre_check_prototypes:
  assumes "pre_check ext b sp (w, ml) = (ok, ml1, w2)"
  shows "prototypes w2 = prototypes w"
    and "ok = (stack_failures ext (clean_prototype_interfaces ext w sp) False sp = [])"
  using validate_prototype_result(1,3)[of ext "clean_prototype_interfaces ext w sp" sp ml b False ok ml1 w2]
        assms
  by (simp_all add: pre_check_def clean_prototype_interfaces_frame)

text \<open>The status of the selected prototype after one iteration of the importer.\<close>

lemma import_prototype_status:
  assumes sel: "find (\<lambda>p. proto_id p = Some pk) (prototypes w) = Some sp"
      and pc: "pre_check ext b sp (w, ml) = (ok, ml1, w2)"
      and wp: "write_phase ext sp w2 = (w4, raised)"
  shows "\<exists>s. find (\<lambda>p. proto_id p = Some pk) (prototypes (fst (import_prototype ext b pk (w, ml))))
               = Some s \<and>
             (\<not> ok \<longrightarrow> sync_status s = DISCOVERED) \<and>
             (ok \<and> raised \<longrightarrow> sync_status s = sync_status sp \<or> sync_status s = IMPORTED) \<and>
             (ok \<and> \<not> raised \<longrightarrow>
                sync_status s = (if stack_failures ext w4 True sp = [] then IMPORTED
                                 else DISCOVERED))"
proof -
  have pid: "proto_id sp = Some pk" using find_in_set[OF sel] by simp
  have sel2: "find (\<lambda>p. proto_id p = Some pk) (prototypes w2) = Some sp"
    using sel pre_check_prototypes(1)[OF pc] by simp
  show ?thesis
  proof (cases ok)
    case False
    note R = import_prototype_invalid[OF sel pc False]
    have "find (\<lambda>p. proto_id p = Some pk) (prototypes (fst (import_prototype ext b pk (w, ml))))
            = Some (sp \<lparr> sync_status := DISCOVERED \<rparr>)"
      unfolding R using find_save_prototype[OF sel2, of "sp \<lparr> sync_status := DISCOVERED \<rparr>"] pid
      by (simp add: log_entry_frame)
    then show ?thesis using False by simp
  next
    case True
    show ?thesis
    proof (cases raised)
      case R: True
      have res: "import_prototype ext b pk (w, ml)
                   = (log_entry Failure (UnableToCreatePrototype (prototype_ref sp)) w4, ml1)"
        using sel pc wp True R by (simp add: import_prototype_def)
      from write_phase_prototypes[OF wp]
      have "\<exists>s. find (\<lambda>p. proto_id p = Some pk) (prototypes w4) = Some s \<and>
                 (sync_status s = sync_status sp \<or> sync_status s = IMPORTED)"
      proof
        assume "raised \<and> prototypes w4 = prototypes w2"
        then show ?thesis using sel2 by simp
      next
        assume "\<exists>n. prototypes w4 = prototypes (save_prototype
                  (sp \<lparr> matching_netbox_device := Some n, sync_status := IMPORTED \<rparr>) w2)"
        then obtain n where n: "prototypes w4 = prototypes (save_prototype
                  (sp \<lparr> matching_netbox_device := Some n, sync_status := IMPORTED \<rparr>) w2)"
          by blast
        have "find (\<lambda>p. proto_id p = Some pk) (prototypes w4)
                = Some (sp \<lparr> matching_netbox_device := Some n, sync_status := IMPORTED \<rparr>)"
          unfolding n by (rule find_save_prototype[OF sel2]) (simp add: pid)
        then show ?thesis by simp
      qed
      then show ?thesis using True R by (simp add: res log_entry_frame)
    next
      case NR: False
      from write_phase_prototypes[OF wp] NR obtain n where
        n: "prototypes w4 = prototypes (save_prototype
                  (sp \<lparr> matching_netbox_device := Some n, sync_status := IMPORTED \<rparr>) w2)"
        by blast
      let ?sp2 = "sp \<lparr> matching_netbox_device := Some n, sync_status := IMPORTED \<rparr>"
      have f4: "find (\<lambda>p. proto_id p = Some pk) (prototypes w4) = Some ?sp2"
        unfolding n by (rule find_save_prototype[OF sel2]) (simp add: pid)
      obtain ok2 ml2 w5 where v2: "validate_prototype ext w4 ?sp2 ml1 b True = (ok2, ml2, w5)"
        by (cases "validate_prototype ext w4 ?sp2 ml1 b True")
      note V = validate_prototype_result[OF v2]
      have ok2: "ok2 = (stack_failures ext w4 True sp = [])"
        using V(1) stack_failures_cong[of ?sp2 sp ext w4 True] by simp
      have f5: "find (\<lambda>p. proto_id p = Some pk) (prototypes w5) = Some ?sp2"
        using f4 V(3) by simp
      show ?thesis
      proof (cases ok2)
        case T2: True
        have res: "import_prototype ext b pk (w, ml)
                   = (log_entry Info (PrototypeIsImported (prototype_ref ?sp2)) w5, ml2)"
          using sel pc wp True NR f4 v2 T2 by (simp add: import_prototype_def)
        show ?thesis using f5 True NR T2 ok2 by (simp add: res log_entry_frame)
      next
        case F2: False
        have res: "import_prototype ext b pk (w, ml)
                   = (log_entry Info (PrototypeIsDiscovered (prototype_ref ?sp2))
                        (save_prototype (?sp2 \<lparr> sync_status := DISCOVERED \<rparr>) w5), ml2)"
          using sel pc wp True NR f4 v2 F2 by (simp add: import_prototype_def)
        have "find (\<lambda>p. proto_id p = Some pk)
                (prototypes (save_prototype (?sp2 \<lparr> sync_status := DISCOVERED \<rparr>) w5))
                = Some (?sp2 \<lparr> sync_status := DISCOVERED \<rparr>)"
          by (rule find_save_prototype[OF f5]) (simp add: pid)
        then show ?thesis using True NR F2 ok2 by (simp add: res log_entry_frame)
      qed
    qed
  qed
qed

text \<open>One iteration leaves every row with another primary key as it is.\<close>

lemma save_prototype_rows:
  "proto_id p = Some pk \<Longrightarrow>
     length (prototypes (save_prototype p w)) = length (prototypes w) \<and>
     (\<forall>j<length (prototypes w). proto_id (prototypes w ! j) \<noteq> Some pk
         \<longrightarrow> prototypes (save_prototype p w) ! j = prototypes w ! j)"
  by (simp add: save_prototype_def)

lemma import_prototype_rows:
  "length (prototypes (fst (import_prototype ext b pk st))) = length (prototypes (fst st)) \<and>
   (\<forall>j<length (prototypes (fst st)). proto_id (prototypes (fst st) ! j) \<noteq> Some pk
       \<longrightarrow> prototypes (fst (import_prototype ext b pk st)) ! j = prototypes (fst st) ! j)"
proof (cases "find (\<lambda>p. proto_id p = Some pk) (prototypes (fst st))")
  case None
  then show ?thesis by (simp add: import_prototype_def log_entry_frame)
next
  case (Some sp)
  obtain w ml where st: "st = (w, ml)" by (cases st)
  have sel: "find (\<lambda>p. proto_id p = Some pk) (prototypes w) = Some sp" using Some st by simp
  have pid: "proto_id sp = Some pk" using find_in_set[OF sel] by simp
  obtain ok ml1 w2 where pc: "pre_check ext b sp (w, ml) = (ok, ml1, w2)"
    by (cases "pre_check ext b sp (w, ml)")
  obtain w4 raised where wp: "write_phase ext sp w2 = (w4, raised)"
    by (cases "write_phase ext sp w2")
  have p2: "prototypes w2 = prototypes w" using pre_check_prototypes(1)[OF pc] .
  have rows4: "length (prototypes w4) = length (prototypes w) \<and>
     (\<forall>j<length (prototypes w). proto_id (prototypes w ! j) \<noteq> Some pk
         \<longrightarrow> prototypes w4 ! j = prototypes w ! j)"
    using write_phase_prototypes[OF wp] p2
          save_prototype_rows[of "sp \<lparr> matching_netbox_device := Some n, sync_status := IMPORTED \<rparr>" pk w2 for n]
          pid
    by auto
  show ?thesis
  proof (cases ok)
    case False
    show ?thesis
      unfolding st import_prototype_invalid[OF sel pc False]
      using save_prototype_rows[of "sp \<lparr> sync_status := DISCOVERED \<rparr>" pk w2] pid p2
      by (simp add: log_entry_frame)
  next
    case True
    show ?thesis
    proof (cases raised)
      case R: True
      have res: "import_prototype ext b pk (w, ml)
                   = (log_entry Failure (UnableToCreatePrototype (prototype_ref sp)) w4, ml1)"
        using sel pc wp True R by (simp add: import_prototype_def)
      show ?thesis unfolding st res using rows4 by (simp add: log_entry_frame)
    next
      case NR: False
      show ?thesis
      proof (cases "find (\<lambda>p. proto_id p = Some pk) (prototypes w4)")
        case None
        have res: "import_prototype ext b pk (w, ml)
                   = (log_entry Failure (UnableToCreatePrototype (prototype_ref sp)) w4, ml1)"
          using sel pc wp True NR None by (simp add: import_prototype_def)
        show ?thesis unfolding st res using rows4 by (simp add: log_entry_frame)
      next
        case (Some sp2)
        have pid2: "proto_id sp2 = Some pk" using find_in_set[OF Some] by simp
        obtain ok2 ml2 w5 where v2: "validate_prototype ext w4 sp2 ml1 b True = (ok2, ml2, w5)"
          by (cases "validate_prototype ext w4 sp2 ml1 b True")
        have p5: "prototypes w5 = prototypes w4" using validate_prototype_result(3)[OF v2] .
        show ?thesis
        proof (cases ok2)
          case T2: True
          have res: "import_prototype ext b pk (w, ml)
                   = (log_entry Info (PrototypeIsImported (prototype_ref sp2)) w5, ml2)"
            using sel pc wp True NR Some v2 T2 by (simp add: import_prototype_def)
          show ?thesis unfolding st res using rows4 p5 by (simp add: log_entry_frame)
        next
          case F2: False
          have res: "import_prototype ext b pk (w, ml)
                   = (log_entry Info (PrototypeIsDiscovered (prototype_ref sp2))
                        (save_prototype (sp2 \<lparr> sync_status := DISCOVERED \<rparr>) w5), ml2)"
            using sel pc wp True NR Some v2 F2 by (simp add: import_prototype_def)
          show ?thesis
            unfolding st res
            using rows4 p5 save_prototype_rows[of "sp2 \<lparr> sync_status := DISCOVERED \<rparr>" pk w5] pid2
            by (simp add: log_entry_frame)
        qed
      qed
    qed
  qed
qed

lemma import_loop_rows:
  "length (prototypes (fst (foldl (\<lambda>st pk. import_prototype ext b pk st) st pks)))
     = length (prototypes (fst st)) \<and>
   (\<forall>j<length (prototypes (fst st)). proto_id (prototypes (fst st) ! j) \<notin> Some ` set pks
       \<longrightarrow> prototypes (fst (foldl (\<lambda>st pk. import_prototype ext b pk st) st pks)) ! j
             = prototypes (fst st) ! j)"
proof (induction pks arbitrary: st)
  case Nil
  then show ?case by simp
next
  case (Cons pk pks)
  note S = import_prototype_rows[of ext b pk st]
  note I = Cons.IH[of "import_prototype ext b pk st"]
  show ?case
  proof (intro conjI allI impI)
    show "length (prototypes (fst (foldl (\<lambda>st pk. import_prototype ext b pk st) st (pk # pks))))
            = length (prototypes (fst st))"
      using S I by simp
  next
    fix j assume j: "j < length (prototypes (fst st))"
      and n: "proto_id (prototypes (fst st) ! j) \<notin> Some ` set (pk # pks)"
    have 1: "prototypes (fst (import_prototype ext b pk st)) ! j = prototypes (fst st) ! j"
      using S j n by auto
    have "prototypes (fst (foldl (\<lambda>st pk. import_prototype ext b pk st)
                              (import_prototype ext b pk st) pks)) ! j
            = prototypes (fst (import_prototype ext b pk st)) ! j"
      using I j S n 1 by auto
    then show "prototypes (fst (foldl (\<lambda>st pk. import_prototype ext b pk st) st (pk # pks))) ! j
                 = prototypes (fst st) ! j"
      using 1 by simp
  qed
qed

lemma deleted_not_selected:
  assumes d: "distinct (map proto_id (prototypes w))"
      and j: "j < length (prototypes w)" and del: "sync_status (prototypes w ! j) = DELETED"
  shows "proto_id (prototypes w ! j) \<notin> Some ` set (primary_keys (selected_prototypes ids w))"
proof
  assume "proto_id (prototypes w ! j) \<in> Some ` set (primary_keys (selected_prototypes ids w))"
  then obtain p where p: "p \<in> set (selected_prototypes ids w)"
    and e: "proto_id p = proto_id (prototypes w ! j)"
    by (auto simp: primary_keys_def split: option.splits)
  from p have pin: "p \<in> set (prototypes w)" and nd: "sync_status p \<noteq> DELETED"
    by (auto simp: selected_prototypes_def)
  have "prototypes w ! j \<in> set (prototypes w)" using j by simp
  then have "p = prototypes w ! j"
    using d pin e by (meson distinct_map inj_onD)
  then show False using nd del by simp
qed

lemma import_keeps_deleted:
  assumes d: "distinct (map proto_id (prototypes w))"
      and j: "j < length (prototypes w)" and del: "sync_status (prototypes w ! j) = DELETED"
  shows "prototypes (fst (import_fetched_elements_in_netbox ext b ids w)) ! j = prototypes w ! j"
proof (cases "selected_prototypes ids w = []")
  case True
  then show ?thesis by (simp add: import_fetched_elements_in_netbox_def log_entry_frame)
next
  case False
  have "prototypes (fst (foldl (\<lambda>st pk. import_prototype ext b pk st) (w, [])
                          (primary_keys (selected_prototypes ids w)))) ! j = prototypes w ! j"
    using import_loop_rows[of ext b "(w, [])" "primary_keys (selected_prototypes ids w)"]
          deleted_not_selected[OF d j del, of ids] j
    by simp
  then show ?thesis
    using False
    by (cases "foldl (\<lambda>st pk. import_prototype ext b pk st) (w, [])
                 (primary_keys (selected_prototypes ids w))")
       (simp add: import_fetched_elements_in_netbox_def Let_def)
qed
text \<open>
  C1, as the code has it. The upsert of a fetch pass stores the prototype of the processed
  unit with \<^verbatim>\<open>sync_status\<close> Discovered, whatever the stored status was, and leaves the rows
  with other keys alone. The deletion detector changes a row only by setting Deleted, and does
  so exactly for the rows of the controller whose key is not in the pass. One iteration of the
  importer leaves the selected prototype Discovered when the pre-check fails; when the
  pre-check passes and no exception escapes, Imported if the post-check passes and Discovered
  if it fails; when an exception escapes, as it was or Imported; every other row is left
  alone. The importer never changes a row that is Deleted (primary keys being unique).
\<close>

theorem sync_status_transitions:
  "(\<forall>u w s w'. process_prototype ext ctrl u w = Inr (s, w') \<longrightarrow>
      find_prototype (prototypes w') (unit_key u) = Some s \<and> sync_status s = DISCOVERED \<and>
      (\<forall>j<length (prototypes w). prototype_key (prototypes w ! j) \<noteq> unit_key u
           \<longrightarrow> prototypes w' ! j = prototypes w ! j)) \<and>
   (\<forall>ps (w::world) j. j < length (prototypes w) \<longrightarrow>
      prototypes (mark_deleted ctrl ps w) ! j =
        (if sdn_controller (prototypes w ! j) = ctrl_id ctrl
            \<and> prototype_key (prototypes w ! j) \<notin> set (map prototype_key ps)
         then (prototypes w ! j) \<lparr> sync_status := DELETED \<rparr>
         else prototypes w ! j)) \<and>
   (\<forall>pk (w::world) ml sp. find (\<lambda>p. proto_id p = Some pk) (prototypes w) = Some sp \<longrightarrow>
      (\<exists>s. find (\<lambda>p. proto_id p = Some pk)
              (prototypes (fst (import_prototype ext b pk (w, ml)))) = Some s \<and>
           (\<not> fst (pre_check ext b sp (w, ml)) \<longrightarrow> sync_status s = DISCOVERED) \<and>
           (fst (pre_check ext b sp (w, ml))
            \<and> snd (write_phase ext sp (snd (snd (pre_check ext b sp (w, ml)))))
              \<longrightarrow> sync_status s = sync_status sp \<or> sync_status s = IMPORTED) \<and>
           (fst (pre_check ext b sp (w, ml))
            \<and> \<not> snd (write_phase ext sp (snd (snd (pre_check ext b sp (w, ml)))))
              \<longrightarrow> sync_status s =
                    (if stack_failures ext
                          (fst (write_phase ext sp (snd (snd (pre_check ext b sp (w, ml))))))
                          True sp = []
                     then IMPORTED else DISCOVERED))) \<and>
      (\<forall>j<length (prototypes w). proto_id (prototypes w ! j) \<noteq> Some pk
           \<longrightarrow> prototypes (fst (import_prototype ext b pk (w, ml))) ! j = prototypes w ! j)) \<and>
   (\<forall>ids (w::world) j. distinct (map proto_id (prototypes w)) \<and> j < length (prototypes w)
        \<and> sync_status (prototypes w ! j) = DELETED
      \<longrightarrow> prototypes (fst (import_fetched_elements_in_netbox ext b ids w)) ! j
            = prototypes w ! j)"
proof (intro conjI allI impI)
  fix u w s w'
  assume p: "process_prototype ext ctrl u w = Inr (s, w')"
  show "find_prototype (prototypes w') (unit_key u) = Some s"
    by (rule process_prototype_table(3)[OF p])
  show "sync_status s = DISCOVERED" by (rule process_prototype_table(2)[OF p])
  fix j assume "j < length (prototypes w)" "prototype_key (prototypes w ! j) \<noteq> unit_key u"
  then show "prototypes w' ! j = prototypes w ! j" by (rule process_prototype_table(5)[OF p])
next
  fix ps and w :: world and j
  assume "j < length (prototypes w)"
  then show "prototypes (mark_deleted ctrl ps w) ! j =
        (if sdn_controller (prototypes w ! j) = ctrl_id ctrl
            \<and> prototype_key (prototypes w ! j) \<notin> set (map prototype_key ps)
         then (prototypes w ! j) \<lparr> sync_status := DELETED \<rparr>
         else prototypes w ! j)"
    by (simp add: mark_deleted_rows del: set_map)
next
  fix pk and w :: world and ml sp
  assume sel: "find (\<lambda>p. proto_id p = Some pk) (prototypes w) = Some sp"
  obtain ok ml1 w2 where pc: "pre_check ext b sp (w, ml) = (ok, ml1, w2)"
    by (cases "pre_check ext b sp (w, ml)")
  obtain w4 raised where wp: "write_phase ext sp w2 = (w4, raised)"
    by (cases "write_phase ext sp w2")
  from import_prototype_status[OF sel pc wp]
  show "\<exists>s. find (\<lambda>p. proto_id p = Some pk)
              (prototypes (fst (import_prototype ext b pk (w, ml)))) = Some s \<and>
           (\<not> fst (pre_check ext b sp (w, ml)) \<longrightarrow> sync_status s = DISCOVERED) \<and>
           (fst (pre_check ext b sp (w, ml))
            \<and> snd (write_phase ext sp (snd (snd (pre_check ext b sp (w, ml)))))
              \<longrightarrow> sync_status s = sync_status sp \<or> sync_status s = IMPORTED) \<and>
           (fst (pre_check ext b sp (w, ml))
            \<and> \<not> snd (write_phase ext sp (snd (snd (pre_check ext b sp (w, ml)))))
              \<longrightarrow> sync_status s =
                    (if stack_failures ext
                          (fst (write_phase ext sp (snd (snd (pre_check ext b sp (w, ml))))))
                          True sp = []
                     then IMPORTED else DISCOVERED))"
    by (simp add: pc wp)
  fix j assume "j < length (prototypes w)" "proto_id (prototypes w ! j) \<noteq> Some pk"
  then show "prototypes (fst (import_prototype ext b pk (w, ml))) ! j = prototypes w ! j"
    using import_prototype_rows[of ext b pk "(w, ml)"] by simp
next
  fix ids and w :: world and j
  assume "distinct (map proto_id (prototypes w)) \<and> j < length (prototypes w)
        \<and> sync_status (prototypes w ! j) = DELETED"
  then show "prototypes (fst (import_fetched_elements_in_netbox ext b ids w)) ! j
            = prototypes w ! j"
    using import_keeps_deleted by blast
qed

text \<open>
  A stored prototype that is Imported is Discovered again after the upsert of the next fetch
  pass; no validation takes part in it.
\<close>

theorem upsert_resets_imported_counterexample:
  "find_prototype (prototypes ex_stored_world) (unit_key ex_unit1) = Some ex_stored \<and>
   sync_status ex_stored = IMPORTED \<and>
   process_prototype ex_ext ex_ctrl ex_unit1 ex_stored_world
     = Inr (ex_refetched,
            \<lparr> inv = ex_inventory_after, prototypes = [ex_refetched], script_log = [] \<rparr>) \<and>
   sync_status ex_refetched = DISCOVERED"
  by code_simp

lemma ex_stored_process:
  "map_sum id (\<lambda>(s, w'). sync_status s)
     (process_prototype ex_ext ex_ctrl ex_unit1 ex_stored_world) = Inr DISCOVERED"
  by code_simp

lemma ex_ready_import:
  "find (\<lambda>p. proto_id p = Some 1) (prototypes ex_ready_world) = Some ex_ready \<and>
   fst (pre_check ex_ext True ex_ready (ex_ready_world, [])) \<and>
   \<not> snd (write_phase ex_ext ex_ready (snd (snd (pre_check ex_ext True ex_ready (ex_ready_world, []))))) \<and>
   stack_failures ex_ext
     (fst (write_phase ex_ext ex_ready (snd (snd (pre_check ex_ext True ex_ready (ex_ready_world, []))))))
     True ex_ready = []"
  by code_simp

theorem sync_status_transitions_witness:
  "(\<exists>s w'. process_prototype ex_ext ex_ctrl ex_unit1 ex_stored_world = Inr (s, w') \<and>
      sync_status ex_stored = IMPORTED \<and>
      find_prototype (prototypes w') (unit_key ex_unit1) = Some s \<and>
      sync_status s = DISCOVERED) \<and>
   prototypes (mark_deleted ex_ctrl [ex_proto_a] ex_two_world) ! 1
     = ex_proto_b \<lparr> sync_status := DELETED \<rparr> \<and>
   sync_status ex_ready = DISCOVERED \<and>
   (\<exists>s. find (\<lambda>p. proto_id p = Some 1)
           (prototypes (fst (import_prototype ex_ext True 1 (ex_ready_world, [])))) = Some s \<and>
        sync_status s = IMPORTED) \<and>
   distinct (map proto_id (prototypes ex_deleted_world)) \<and>
   sync_status (prototypes ex_deleted_world ! 1) = DELETED \<and>
   prototypes (fst (import_fetched_elements_in_netbox ex_ext True None ex_deleted_world)) ! 1
     = prototypes ex_deleted_world ! 1"
proof -
  note T = sync_status_transitions[of ex_ext ex_ctrl True]
  note T1 = T[THEN conjunct1]
  note T2 = T[THEN conjunct2, THEN conjunct1]
  note T3 = T[THEN conjunct2, THEN conjunct2, THEN conjunct1]
  note T4 = T[THEN conjunct2, THEN conjunct2, THEN conjunct2]
  obtain s w' where p: "process_prototype ex_ext ex_ctrl ex_unit1 ex_stored_world = Inr (s, w')"
    using ex_stored_process
    by (cases "process_prototype ex_ext ex_ctrl ex_unit1 ex_stored_world") auto
  have a: "find_prototype (prototypes w') (unit_key ex_unit1) = Some s \<and> sync_status s = DISCOVERED"
    using T1[rule_format, OF p] by simp
  have st: "sync_status ex_stored = IMPORTED" by (simp add: ex_stored_def)
  have k: "sdn_controller ex_proto_b = ctrl_id ex_ctrl"
    "prototype_key ex_proto_b \<notin> set (map prototype_key [ex_proto_a])"
    by code_simp+
  have b: "prototypes (mark_deleted ex_ctrl [ex_proto_a] ex_two_world) ! 1
     = ex_proto_b \<lparr> sync_status := DELETED \<rparr>"
    using T2[rule_format, of 1 ex_two_world "[ex_proto_a]"] k
    by (simp add: ex_two_world_def)
  have r: "sync_status ex_ready = DISCOVERED" by (simp add: ex_ready_def)
  from T3[rule_format, of 1 ex_ready_world ex_ready "[]"] ex_ready_import
  have c: "\<exists>s. find (\<lambda>p. proto_id p = Some 1)
           (prototypes (fst (import_prototype ex_ext True 1 (ex_ready_world, [])))) = Some s \<and>
        sync_status s = IMPORTED"
    by auto
  have d: "distinct (map proto_id (prototypes ex_deleted_world))"
    by (simp add: ex_deleted_world_def ex_proto_a_def ex_proto_b_def)
  have e: "sync_status (prototypes ex_deleted_world ! 1) = DELETED"
    by (simp add: ex_deleted_world_def)
  have l: "1 < length (prototypes ex_deleted_world)" by (simp add: ex_deleted_world_def)
  have f: "prototypes (fst (import_fetched_elements_in_netbox ex_ext True None ex_deleted_world)) ! 1
     = prototypes ex_deleted_world ! 1"
    using T4[rule_format, of ex_deleted_world 1 None] d e l by simp
  show ?thesis using p a st b r c d e f by blast
qed

end
